theory Spec2Isabelle
  imports Main
begin

section \<open>JavaScript values\<close>

text \<open>
  The end-to-end script works on the JSON data that the issuer and the verifier return.
  A value of the script is one of JavaScript's \<open>undefined\<close>, \<open>null\<close>, a boolean, a number,
  a string, an array or an object. An object is the list of its own properties in
  enumeration order (the order of \<open>Object.entries\<close>); its keys are distinct. Numbers are
  the integers: the script only tests a number for being zero and turns it into a string.
  A string is a list of 8-bit characters: the UTF-8 bytes of its text, which is the
  level at which the URL functions of the platform work. Where the script counts the
  characters of a string (\<open>substring\<close>, \<open>[0]\<close>) the model counts these, which is the
  same for ASCII text.
\<close>

datatype jsval =
    JUndefined
  | JNull
  | JBool bool
  | JNum int
  | JStr string
  | JArr "jsval list"
  | JObj "(string \<times> jsval) list"

text \<open>What the script throws: \<open>new Error(message)\<close>, the engine's \<open>TypeError\<close>,
  \<open>URIError\<close> and \<open>SyntaxError\<close>, and the HTTP client's error, which carries the
  response (status and body) when the server answered.\<close>

datatype js_error =
    Error string
  | TypeError
  | URIError
  | SyntaxError
  | AxiosError "(int \<times> jsval) option"

text \<open>\<open>!!v\<close>: the values that count as true in \<open>if (v)\<close>, \<open>v || w\<close> and \<open>v && w\<close>.\<close>

fun truthy :: "jsval \<Rightarrow> bool" where
  "truthy JUndefined = False"
| "truthy JNull = False"
| "truthy (JBool b) = b"
| "truthy (JNum n) = (n \<noteq> 0)"
| "truthy (JStr s) = (s \<noteq> [])"
| "truthy (JArr xs) = True"
| "truthy (JObj kvs) = True"

definition js_or :: "jsval \<Rightarrow> jsval \<Rightarrow> jsval" where
  "js_or a b = (if truthy a then a else b)"

definition js_and :: "jsval \<Rightarrow> jsval \<Rightarrow> jsval" where
  "js_and a b = (if truthy a then b else a)"

fun nullish :: "jsval \<Rightarrow> bool" where
  "nullish JUndefined = True"
| "nullish JNull = True"
| "nullish v = False"

text \<open>
  \<open>v.k\<close> for the property names the script writes out (\<open>grants\<close>, \<open>format\<close>,
  \<open>c_nonce\<close>, ...): none of them is an index, \<open>length\<close> or a member of a prototype, so
  on a string, a number, a boolean or an array the read gives \<open>undefined\<close>, and on
  \<open>null\<close> or \<open>undefined\<close> it throws a TypeError. \<open>v?.k\<close> gives \<open>undefined\<close> there.
\<close>

fun own_prop :: "jsval \<Rightarrow> string \<Rightarrow> jsval" where
  "own_prop (JObj kvs) k = (case map_of kvs k of Some v \<Rightarrow> v | None \<Rightarrow> JUndefined)"
| "own_prop v k = JUndefined"

definition js_get :: "jsval \<Rightarrow> string \<Rightarrow> js_error + jsval" where
  "js_get v k = (if nullish v then Inl TypeError else Inr (own_prop v k))"

definition js_get_opt :: "jsval \<Rightarrow> string \<Rightarrow> jsval" where
  "js_get_opt v k = (if nullish v then JUndefined else own_prop v k)"

text \<open>Sequencing of computations that may throw.\<close>

definition ebind :: "js_error + 'a \<Rightarrow> ('a \<Rightarrow> js_error + 'b) \<Rightarrow> js_error + 'b" where
  "ebind m f = (case m of Inl e \<Rightarrow> Inl e | Inr x \<Rightarrow> f x)"

section \<open>The platform's URL functions\<close>

definition is_hex :: "char \<Rightarrow> bool" where
  "is_hex c = (c \<in> set ''0123456789abcdefABCDEF'')"

definition hex_val :: "char \<Rightarrow> nat" where
  "hex_val c =
     (let n = of_char c :: nat in
      if 48 \<le> n \<and> n \<le> 57 then n - 48
      else if 97 \<le> n \<and> n \<le> 102 then n - 87
      else n - 55)"

definition hex_byte :: "char \<Rightarrow> char \<Rightarrow> char" where
  "hex_byte h l = char_of (16 * hex_val h + hex_val l)"

text \<open>\<open>s.split(c)\<close> for a one-character separator: never empty, \<open>''.split(c)\<close> is \<open>['']\<close>.\<close>

fun split_on :: "char \<Rightarrow> string \<Rightarrow> string list" where
  "split_on c [] = [[]]"
| "split_on c (x # xs) =
     (if x = c then [] # split_on c xs
      else (case split_on c xs of [] \<Rightarrow> [[x]] | y # ys \<Rightarrow> (x # y) # ys))"

text \<open>The URL standard's percent-decode: a \<open>%\<close> that two hex digits do not follow is
  kept as it is.\<close>

fun percent_decode :: "string \<Rightarrow> string" where
  "percent_decode (c # h # l # rest) =
     (if c = CHR ''%'' \<and> is_hex h \<and> is_hex l then hex_byte h l # percent_decode rest
      else c # percent_decode (h # l # rest))"
| "percent_decode (c # rest) = c # percent_decode rest"
| "percent_decode [] = []"

text \<open>
  The bounds of the UTF-8 decoder for the byte after a lead byte: \<open>E0\<close>, \<open>ED\<close>,
  \<open>F0\<close> and \<open>F4\<close> narrow the range of the second byte (no overlong forms, no
  surrogates, nothing beyond U+10FFFF).
\<close>

definition utf8_lo :: "nat \<Rightarrow> nat" where
  "utf8_lo lead = (if lead = 0xE0 then 0xA0 else if lead = 0xF0 then 0x90 else 0x80)"

definition utf8_hi :: "nat \<Rightarrow> nat" where
  "utf8_hi lead = (if lead = 0xED then 0x9F else if lead = 0xF4 then 0x8F else 0xBF)"

definition utf8_need :: "nat \<Rightarrow> nat" where
  "utf8_need lead =
     (if 0xC2 \<le> lead \<and> lead \<le> 0xDF then 1
      else if 0xE0 \<le> lead \<and> lead \<le> 0xEF then 2
      else if 0xF0 \<le> lead \<and> lead \<le> 0xF4 then 3
      else 0)"

definition replacement :: string where
  "replacement = [char_of (0xEF::nat), char_of (0xBF::nat), char_of (0xBD::nat)]"

text \<open>
  The Encoding standard's "UTF-8 decode without BOM", on bytes: a well-formed sequence
  is kept, every ill-formed one becomes U+FFFD (\<open>EF BF BD\<close>), and a byte that cannot
  continue a sequence is read again as the start of the next one.
\<close>

function utf8_decode :: "string \<Rightarrow> string"
  and utf8_tail :: "nat \<Rightarrow> nat \<Rightarrow> nat \<Rightarrow> string \<Rightarrow> string \<Rightarrow> string" where
  "utf8_decode [] = []"
| "utf8_decode (b # bs) =
     (let n = of_char b :: nat in
      if n < 0x80 then b # utf8_decode bs
      else if utf8_need n = 0 then replacement @ utf8_decode bs
      else utf8_tail (utf8_need n) (utf8_lo n) (utf8_hi n) [b] bs)"
| "utf8_tail need lo hi seen [] = replacement"
| "utf8_tail need lo hi seen (b # bs) =
     (let n = of_char b :: nat in
      if lo \<le> n \<and> n \<le> hi then
        (if need \<le> 1 then seen @ b # utf8_decode bs
         else utf8_tail (need - 1) 0x80 0xBF (seen @ [b]) bs)
      else replacement @ utf8_decode (b # bs))"
  by pat_completeness auto
termination
  by (relation "measure (\<lambda>x. case x of Inl bs \<Rightarrow> 2 * length bs + 1
                                     | Inr (_, _, _, _, bs) \<Rightarrow> 2 * length bs + 2)") auto

text \<open>
  \<open>new URLSearchParams(query)\<close>: a leading \<open>?\<close> is dropped, the string is cut at
  \<open>&\<close>, each non-empty piece at its first \<open>=\<close>; in name and value \<open>+\<close> becomes a
  space, then both are percent-decoded and read as UTF-8.
\<close>

definition plus_to_space :: "string \<Rightarrow> string" where
  "plus_to_space s = map (\<lambda>c. if c = CHR ''+'' then CHR '' '' else c) s"

definition form_decode :: "string \<Rightarrow> string" where
  "form_decode s = utf8_decode (percent_decode (plus_to_space s))"

definition parse_pair :: "string \<Rightarrow> string \<times> string" where
  "parse_pair piece =
     (form_decode (takeWhile (\<lambda>c. c \<noteq> CHR ''='') piece),
      form_decode (drop 1 (dropWhile (\<lambda>c. c \<noteq> CHR ''='') piece)))"

definition URLSearchParams :: "string \<Rightarrow> (string \<times> string) list" where
  "URLSearchParams init =
     (let q = (case init of c # rest \<Rightarrow> if c = CHR ''?'' then rest else init | [] \<Rightarrow> [])
      in map parse_pair (filter (\<lambda>piece. piece \<noteq> []) (split_on CHR ''&'' q)))"

text \<open>\<open>params.get(name)\<close>: the value of the first pair of that name, or \<open>null\<close>.\<close>

definition params_get :: "(string \<times> string) list \<Rightarrow> string \<Rightarrow> string option" where
  "params_get params name = map_of params name"

text \<open>
  \<open>decodeURIComponent\<close> (ECMAScript's Decode with an empty set of preserved escapes).
  \<open>leading_ones\<close> counts the leading 1 bits of a decoded byte; 5 stands for "more than
  four".
\<close>

definition leading_ones :: "nat \<Rightarrow> nat" where
  "leading_ones b =
     (if b < 0x80 then 0 else if b < 0xC0 then 1 else if b < 0xE0 then 2
      else if b < 0xF0 then 3 else if b < 0xF8 then 4 else 5)"

fun read_escapes :: "nat \<Rightarrow> string \<Rightarrow> string option" where
  "read_escapes 0 s = Some []"
| "read_escapes (Suc k) (c # h # l # rest) =
     (if c = CHR ''%'' \<and> is_hex h \<and> is_hex l
      then map_option (\<lambda>bs. hex_byte h l # bs) (read_escapes k rest)
      else None)"
| "read_escapes (Suc k) s = None"

text \<open>The octets are the UTF-8 encoding of one code point.\<close>

definition utf8_valid :: "string \<Rightarrow> bool" where
  "utf8_valid octets =
     (case octets of
        b # c # cs \<Rightarrow>
          utf8_need (of_char b) = Suc (length cs)
          \<and> utf8_lo (of_char b) \<le> (of_char c :: nat) \<and> (of_char c :: nat) \<le> utf8_hi (of_char b)
          \<and> list_all (\<lambda>d. 0x80 \<le> (of_char d :: nat) \<and> (of_char d :: nat) \<le> 0xBF) cs
      | _ \<Rightarrow> False)"

fun decodeURIComponent :: "string \<Rightarrow> js_error + string" where
  "decodeURIComponent [] = Inr []"
| "decodeURIComponent (c # rest) =
     (if c \<noteq> CHR ''%'' then ebind (decodeURIComponent rest) (\<lambda>r. Inr (c # r))
      else
        (case rest of
           h # l # rest' \<Rightarrow>
             if is_hex h \<and> is_hex l then
               (let b = hex_byte h l; n = leading_ones (of_char b) in
                if n = 0 then ebind (decodeURIComponent rest') (\<lambda>r. Inr (b # r))
                else if n = 1 \<or> 4 < n then Inl URIError
                else if length rest' < 3 * (n - 1) then Inl URIError
                else
                  (case read_escapes (n - 1) (take (3 * (n - 1)) rest') of
                     None \<Rightarrow> Inl URIError
                   | Some octets \<Rightarrow>
                       if utf8_valid (b # octets)
                       then ebind (decodeURIComponent (drop (3 * (n - 1)) rest'))
                              (\<lambda>r. Inr (b # octets @ r))
                       else Inl URIError))
             else Inl URIError
         | _ \<Rightarrow> Inl URIError))"

text \<open>
  \<open>encodeURIComponent\<close>: letters, digits and \<open>- _ . ! ~ * ' ( )\<close> are kept, every other
  byte of the UTF-8 text becomes \<open>%XX\<close> with upper-case hex digits.
\<close>

definition unreserved :: "char \<Rightarrow> bool" where
  "unreserved c =
     (c \<in> set ''ABCDEFGHIJKLMNOPQRSTUVWXYZabcdefghijklmnopqrstuvwxyz0123456789-_.!~*'()'')"

definition hex_digit :: "nat \<Rightarrow> char" where
  "hex_digit n = ''0123456789ABCDEF'' ! (n mod 16)"

definition encodeURIComponent :: "string \<Rightarrow> string" where
  "encodeURIComponent s =
     concat (map (\<lambda>c. if unreserved c then [c]
                       else [CHR ''%'', hex_digit (of_char c div 16), hex_digit (of_char c)]) s)"

section \<open>The platform\<close>

text \<open>
  What the script takes from outside: the JSON parser, the HTTP client, the key
  generator, the JWK export, the JWT signer, the UUID generator and the clock. An
  answer that may differ from call to call is a function of the number of platform
  calls made before it. \<open>'k\<close> is the type of key handles; a key pair is
  (public key, private key).
\<close>

datatype request =
    HttpGet string
  | HttpPost string jsval "(string \<times> string) list"

record 'k platform =
  JSON_parse :: "string \<Rightarrow> jsval option"
  http :: "nat \<Rightarrow> request \<Rightarrow> js_error + jsval"
  generateKeyPair :: "nat \<Rightarrow> js_error + ('k \<times> 'k)"
  exportJWK :: "'k \<Rightarrow> (string \<times> jsval) list"
  sign_jwt :: "jsval \<Rightarrow> jsval \<Rightarrow> 'k \<Rightarrow> js_error + string"
  random_uuid :: "nat \<Rightarrow> string"
  Date_now :: "nat \<Rightarrow> int"
  toISOString :: "int \<Rightarrow> string"

section \<open>Parsing an inline credential offer\<close>

text \<open>\<open>offerUrl.split('?')[1] || ''\<close>; a value that is not a string has no \<open>split\<close>.\<close>

definition url_query :: "jsval \<Rightarrow> js_error + string" where
  "url_query offerUrl =
     (case offerUrl of
        JStr s \<Rightarrow> Inr (case split_on CHR ''?'' s of _ # q # _ \<Rightarrow> q | _ \<Rightarrow> [])
      | _ \<Rightarrow> Inl TypeError)"

definition parseCredentialOfferUrl :: "'k platform \<Rightarrow> jsval \<Rightarrow> js_error + jsval" where
  "parseCredentialOfferUrl P offerUrl =
     ebind (url_query offerUrl) (\<lambda>query.
       let params = URLSearchParams query;
           raw = params_get params ''credential_offer''
       in case raw of
            None \<Rightarrow> Inl (Error ''credential_offer not found'')
          | Some r \<Rightarrow>
              if r = [] then Inl (Error ''credential_offer not found'')
              else ebind (decodeURIComponent r) (\<lambda>decoded.
                     case JSON_parse P decoded of
                       None \<Rightarrow> Inl SyntaxError
                     | Some offer \<Rightarrow> Inr offer))"

section \<open>Effects\<close>

text \<open>
  The script runs one step after the other (every call is awaited). Its effects are the
  lines it prints, the HTTP requests it sends and the pauses it makes; the world
  records them in order, with the number of platform calls made so far. A step takes a
  world and gives its result, or the error it threw, and the new world. A printed line
  is recorded as the list of the values printed; a value that the script prints through
  \<open>JSON.stringify\<close> is recorded as the value.
\<close>

datatype event =
    ConsoleLog "jsval list"
  | ConsoleWarn "jsval list"
  | ConsoleError "jsval list"
  | ConsoleErrorThrown js_error
  | Sent request
  | Sleep nat

record world =
  trace :: "event list"
  calls :: nat

type_synonym 'a step = "world \<Rightarrow> (js_error + 'a) \<times> world"

definition ret :: "'a \<Rightarrow> 'a step" where
  "ret x = (\<lambda>w. (Inr x, w))"

definition throw :: "js_error \<Rightarrow> 'a step" where
  "throw e = (\<lambda>w. (Inl e, w))"

definition lift :: "js_error + 'a \<Rightarrow> 'a step" where
  "lift r = (\<lambda>w. (r, w))"

definition bnd :: "'a step \<Rightarrow> ('a \<Rightarrow> 'b step) \<Rightarrow> 'b step" where
  "bnd m f = (\<lambda>w. case m w of (Inl e, w') \<Rightarrow> (Inl e, w') | (Inr x, w') \<Rightarrow> f x w')"

definition emit :: "event \<Rightarrow> unit step" where
  "emit ev = (\<lambda>w. (Inr (), w\<lparr>trace := trace w @ [ev]\<rparr>))"

definition log :: "jsval list \<Rightarrow> unit step" where
  "log args = emit (ConsoleLog args)"

definition http_call :: "'k platform \<Rightarrow> request \<Rightarrow> jsval step" where
  "http_call P req =
     (\<lambda>w. (http P (calls w) req, w\<lparr>trace := trace w @ [Sent req], calls := Suc (calls w)\<rparr>))"

definition axios_get :: "'k platform \<Rightarrow> string \<Rightarrow> jsval step" where
  "axios_get P url = http_call P (HttpGet url)"

definition axios_post ::
  "'k platform \<Rightarrow> string \<Rightarrow> jsval \<Rightarrow> (string \<times> string) list \<Rightarrow> jsval step" where
  "axios_post P url body headers = http_call P (HttpPost url body headers)"

definition now :: "'k platform \<Rightarrow> int step" where
  "now P = (\<lambda>w. (Inr (Date_now P (calls w)), w\<lparr>calls := Suc (calls w)\<rparr>))"

definition uuid :: "'k platform \<Rightarrow> string step" where
  "uuid P = (\<lambda>w. (Inr (random_uuid P (calls w)), w\<lparr>calls := Suc (calls w)\<rparr>))"

definition keygen :: "'k platform \<Rightarrow> ('k \<times> 'k) step" where
  "keygen P = (\<lambda>w. (generateKeyPair P (calls w), w\<lparr>calls := Suc (calls w)\<rparr>))"

section \<open>Conversions of the language\<close>

text \<open>\<open>obj.k = v\<close>: an existing property keeps its place, a new one goes last.\<close>

fun set_prop :: "(string \<times> jsval) list \<Rightarrow> string \<Rightarrow> jsval \<Rightarrow> (string \<times> jsval) list" where
  "set_prop [] k v = [(k, v)]"
| "set_prop ((k', v') # kvs) k v =
     (if k' = k then (k, v) # kvs else (k', v') # set_prop kvs k v)"

text \<open>The decimal digits of a number; a number has no more digits than its value plus
  one.\<close>

fun dec_digits :: "nat \<Rightarrow> nat \<Rightarrow> string" where
  "dec_digits 0 n = []"
| "dec_digits (Suc k) n =
     (if n < 10 then [hex_digit n] else dec_digits k (n div 10) @ [hex_digit (n mod 10)])"

definition dec :: "nat \<Rightarrow> string" where
  "dec n = dec_digits (Suc n) n"

definition dec_int :: "int \<Rightarrow> string" where
  "dec_int i = (if i < 0 then CHR ''-'' # dec (nat (- i)) else dec (nat i))"

fun join :: "string \<Rightarrow> string list \<Rightarrow> string" where
  "join sep [] = []"
| "join sep [x] = x"
| "join sep (x # y # ys) = x @ sep @ join sep (y # ys)"

text \<open>\<open>String(v)\<close>, as a template literal and \<open>URLSearchParams\<close> apply it.\<close>

fun js_to_string :: "jsval \<Rightarrow> string" where
  "js_to_string JUndefined = ''undefined''"
| "js_to_string JNull = ''null''"
| "js_to_string (JBool b) = (if b then ''true'' else ''false'')"
| "js_to_string (JNum n) = dec_int n"
| "js_to_string (JStr s) = s"
| "js_to_string (JArr xs) =
     join '','' (map (\<lambda>x. if nullish x then [] else js_to_string x) xs)"
| "js_to_string (JObj kvs) = ''[object Object]''"

definition indices :: "'a list \<Rightarrow> string list" where
  "indices xs = map dec [0..<length xs]"

text \<open>\<open>Object.entries(v)\<close> and \<open>Object.keys(v)\<close>; \<open>Object.keys\<close> throws on \<open>null\<close> and
  \<open>undefined\<close>.\<close>

fun js_entries :: "jsval \<Rightarrow> (string \<times> jsval) list" where
  "js_entries (JObj kvs) = kvs"
| "js_entries (JArr xs) = zip (indices xs) xs"
| "js_entries (JStr s) = zip (indices s) (map (\<lambda>c. JStr [c]) s)"
| "js_entries v = []"

definition js_keys :: "jsval \<Rightarrow> js_error + jsval" where
  "js_keys v =
     (if nullish v then Inl TypeError else Inr (JArr (map (\<lambda>(k, x). JStr k) (js_entries v))))"

text \<open>\<open>v[0]\<close> on a value that is not \<open>null\<close> or \<open>undefined\<close>.\<close>

fun js_first :: "jsval \<Rightarrow> jsval" where
  "js_first (JArr (x # xs)) = x"
| "js_first (JStr (c # cs)) = JStr [c]"
| "js_first (JObj kvs) = own_prop (JObj kvs) ''0''"
| "js_first v = JUndefined"

text \<open>\<open>v.substring(0, n)\<close>: only a string has the method.\<close>

definition js_substring0 :: "jsval \<Rightarrow> nat \<Rightarrow> js_error + string" where
  "js_substring0 v n = (case v of JStr s \<Rightarrow> Inr (take n s) | _ \<Rightarrow> Inl TypeError)"

text \<open>
  \<open>new URLSearchParams(record).toString()\<close>: the form serializer keeps letters, digits
  and \<open>* - . _\<close>, writes a space as \<open>+\<close> and every other byte as \<open>%XX\<close>.
\<close>

definition form_keep :: "char \<Rightarrow> bool" where
  "form_keep c =
     (c \<in> set ''ABCDEFGHIJKLMNOPQRSTUVWXYZabcdefghijklmnopqrstuvwxyz0123456789*-._'')"

definition form_encode :: "string \<Rightarrow> string" where
  "form_encode s =
     concat (map (\<lambda>c. if form_keep c then [c]
                       else if c = CHR '' '' then ''+''
                       else [CHR ''%'', hex_digit (of_char c div 16), hex_digit (of_char c)]) s)"

definition form_serialize :: "(string \<times> jsval) list \<Rightarrow> string" where
  "form_serialize pairs =
     join ''&'' (map (\<lambda>(k, v). form_encode k @ ''='' @ form_encode (js_to_string v)) pairs)"

section \<open>The steps of the script\<close>

definition ISSUER_BASE :: string where
  "ISSUER_BASE = ''http://localhost:7002''"

definition VERIFIER_BASE :: string where
  "VERIFIER_BASE = ''http://localhost:7003''"

definition STANDARD_VERSION :: string where
  "STANDARD_VERSION = ''draft13''"

definition token_url :: string where
  "token_url = ISSUER_BASE @ ''/'' @ STANDARD_VERSION @ ''/token''"

definition credential_url :: string where
  "credential_url = ISSUER_BASE @ ''/'' @ STANDARD_VERSION @ ''/credential''"

definition json_headers :: "(string \<times> string) list" where
  "json_headers = [(''Content-Type'', ''application/json'')]"

definition say :: "string \<Rightarrow> unit step" where
  "say msg = log [JStr msg]"

definition discoverIssuerConfigs :: "'k platform \<Rightarrow> jsval step" where
  "discoverIssuerConfigs P =
     bnd (say ''  -> Fetching issuer metadata...'') (\<lambda>_.
     axios_get P (ISSUER_BASE @ ''/'' @ STANDARD_VERSION @ ''/.well-known/openid-credential-issuer''))"

definition generateEd25519Jwk :: "'k platform \<Rightarrow> ((string \<times> jsval) list \<times> 'k) step" where
  "generateEd25519Jwk P =
     bnd (keygen P) (\<lambda>(publicKey, privateKey).
     bnd (uuid P) (\<lambda>kid.
     ret (set_prop (exportJWK P privateKey) ''kid'' (JStr kid), privateKey)))"

definition buildCredentialData :: "jsval \<Rightarrow> jsval" where
  "buildCredentialData credentialType =
     JObj [(''@context'', JArr [JStr ''https://www.w3.org/2018/credentials/v1'']),
           (''type'', JArr [JStr ''VerifiableCredential'', credentialType]),
           (''issuer'', JObj [(''name'', JStr ''Test Issuer'')]),
           (''credentialSubject'',
              JObj [(''id'', JStr ''did:example:holder123''),
                    (''givenName'', JStr ''Alice''),
                    (''familyName'', JStr ''Doe'')])]"

definition startIssuance ::
  "'k platform \<Rightarrow> (string \<times> jsval) list \<Rightarrow> string \<Rightarrow> jsval \<Rightarrow> jsval step" where
  "startIssuance P issuerKeyJwk credentialConfigurationId credentialType =
     bnd (say ''  -> Posting issuance request...'') (\<lambda>_.
     bnd (uuid P) (\<lambda>mappingId.
     bnd (now P) (\<lambda>issued.
     bnd (now P) (\<lambda>t.
     axios_post P (ISSUER_BASE @ ''/openid4vc/jwt/issue'')
       (JObj [(''credentialConfigurationId'', JStr credentialConfigurationId),
              (''issuerKey'', JObj [(''type'', JStr ''jwk''), (''jwk'', JObj issuerKeyJwk)]),
              (''authenticationMethod'', JStr ''PRE_AUTHORIZED''),
              (''credentialData'', buildCredentialData credentialType),
              (''mapping'',
                 JObj [(''id'', JStr mappingId),
                       (''issuer'', JObj [(''id'', JStr ''did:key:issuer-did-placeholder'')]),
                       (''credentialSubject'',
                          JObj [(''id'', JStr ''did:key:holder-did-placeholder'')]),
                       (''issuanceDate'', JStr (toISOString P issued)),
                       (''expirationDate'',
                          JStr (toISOString P (t + 365 * 24 * 3600 * 1000)))]),
              (''standardVersion'', JStr ''DRAFT13'')])
       json_headers))))"

definition exchangePreAuthorizedCode :: "'k platform \<Rightarrow> jsval \<Rightarrow> jsval step" where
  "exchangePreAuthorizedCode P code =
     bnd (say ''  -> Exchanging pre-authorized code...'') (\<lambda>_.
     axios_post P token_url
       (JStr (form_serialize
          [(''grant_type'', JStr ''urn:ietf:params:oauth:grant-type:pre-authorized_code''),
           (''pre-authorized_code'', code)]))
       [(''Content-Type'', ''application/x-www-form-urlencoded'')])"

text \<open>
  The claims set and the protected header handed to the signer. \<open>setIssuedAt()\<close>
  replaces \<open>iat\<close> by a second reading of the clock; the nonce is the argument.
\<close>

definition proof_claims :: "string \<Rightarrow> int \<Rightarrow> int \<Rightarrow> jsval \<Rightarrow> (string \<times> jsval) list" where
  "proof_claims audience t t' nonce =
     set_prop [(''aud'', JStr audience), (''iat'', JNum (t div 1000)), (''nonce'', nonce)]
       ''iat'' (JNum (t' div 1000))"

definition proof_header :: "'k platform \<Rightarrow> 'k \<Rightarrow> (string \<times> jsval) list" where
  "proof_header P publicKey =
     [(''alg'', JStr ''EdDSA''), (''typ'', JStr ''openid4vci-proof+jwt''),
      (''jwk'', JObj (exportJWK P publicKey))]"

definition createProofOfPossession ::
  "'k platform \<Rightarrow> 'k \<times> 'k \<Rightarrow> string \<Rightarrow> jsval \<Rightarrow> string step" where
  "createProofOfPossession P holderKey audience nonce =
     bnd (say ''  -> Creating proof of possession JWT...'') (\<lambda>_.
     bnd (now P) (\<lambda>t.
     bnd (now P) (\<lambda>t'.
     lift (sign_jwt P (JObj (proof_header P (fst holderKey)))
             (JObj (proof_claims audience t t' nonce)) (snd holderKey)))))"

definition requestCredential ::
  "'k platform \<Rightarrow> jsval \<Rightarrow> string \<Rightarrow> jsval \<Rightarrow> 'k \<times> 'k \<Rightarrow> jsval step" where
  "requestCredential P accessToken credentialConfigurationId tokenResponse holderKey =
     bnd (say ''  -> Requesting credential...'') (\<lambda>_.
     bnd (ret [(''credential_configuration_id'', JStr credentialConfigurationId),
               (''format'', JStr ''jwt_vc_json'')]) (\<lambda>payload.
     bnd (lift (js_get tokenResponse ''c_nonce'')) (\<lambda>c_nonce.
     bnd (if truthy c_nonce then
            bnd (say ''  -> Adding proof of possession (c_nonce present)'') (\<lambda>_.
            bnd (log [JStr ''  -> c_nonce value:'', c_nonce]) (\<lambda>_.
            bnd (createProofOfPossession P holderKey
                   (ISSUER_BASE @ ''/'' @ STANDARD_VERSION) c_nonce) (\<lambda>proof.
            bnd (log [JStr ''  -> Generated proof JWT (first 100 chars):'',
                      JStr (take 100 proof)]) (\<lambda>_.
            ret (set_prop payload ''proof''
                   (JObj [(''proof_type'', JStr ''jwt''), (''jwt'', JStr proof)]))))))
          else ret payload) (\<lambda>payload.
     bnd (log [JStr ''  -> Final payload:'', JObj payload]) (\<lambda>_.
     axios_post P credential_url (JObj payload)
       [(''Authorization'', ''Bearer '' @ js_to_string accessToken),
        (''Content-Type'', ''application/json'')])))))"

definition startVerification :: "'k platform \<Rightarrow> jsval \<Rightarrow> jsval step" where
  "startVerification P credentialType =
     bnd (say ''  -> Starting verification session...'') (\<lambda>_.
     axios_post P (VERIFIER_BASE @ ''/openid4vc/verify'')
       (JObj [(''request_credentials'',
                 JArr [JObj [(''format'', JStr ''jwt_vc_json''), (''type'', credentialType)]])])
       json_headers)"

text \<open>
  The polling loop of \<open>fetchCredentialOfferWithRetry\<close>, from attempt \<open>i\<close>: the first
  answer is returned; the error of attempt \<open>attempts - 1\<close> is thrown; after any other
  failed attempt the script waits \<open>delayMs\<close>. Without attempts the result is
  \<open>undefined\<close>.
\<close>

function fetch_from ::
  "'k platform \<Rightarrow> string \<Rightarrow> nat \<Rightarrow> nat \<Rightarrow> nat \<Rightarrow> jsval step" where
  "fetch_from P offerUri attempts delayMs i w =
     (if i < attempts then
        (case axios_get P offerUri w of
           (Inr data, w') \<Rightarrow> (Inr data, w')
         | (Inl e, w') \<Rightarrow>
             if i = attempts - 1 then (Inl e, w')
             else fetch_from P offerUri attempts delayMs (Suc i) (snd (emit (Sleep delayMs) w')))
      else (Inr JUndefined, w))"
  by pat_completeness auto
termination
  by (relation "measure (\<lambda>(P, offerUri, attempts, delayMs, i, w). attempts - i)") auto

definition fetchCredentialOfferWithRetry ::
  "'k platform \<Rightarrow> string \<Rightarrow> nat \<Rightarrow> nat \<Rightarrow> jsval step" where
  "fetchCredentialOfferWithRetry P offerUri attempts delayMs =
     fetch_from P offerUri attempts delayMs 0"

definition resolveOfferIfUri :: "'k platform \<Rightarrow> jsval \<Rightarrow> jsval step" where
  "resolveOfferIfUri P offerUrl =
     bnd (lift (url_query offerUrl)) (\<lambda>query.
       let params = URLSearchParams query in
       if (case params_get params ''credential_offer'' of Some r \<Rightarrow> r \<noteq> [] | None \<Rightarrow> False)
       then lift (parseCredentialOfferUrl P offerUrl)
       else
         (case params_get params ''credential_offer_uri'' of
            None \<Rightarrow> throw (Error ''No credential_offer or credential_offer_uri'')
          | Some offerUri \<Rightarrow>
              if offerUri = [] then throw (Error ''No credential_offer or credential_offer_uri'')
              else fetchCredentialOfferWithRetry P offerUri 5 500))"

section \<open>The run\<close>

text \<open>
  The loop of \<open>main\<close> over the entries of the configurations: it stops at the first
  one whose format is \<open>jwt_vc_json\<close> or \<open>jwt_vc\<close>. \<open>pickedId\<close> and \<open>picked\<close> start
  \<open>undefined\<close>.
\<close>

fun pick_first :: "(string \<times> jsval) list \<Rightarrow> js_error + (string option \<times> jsval)" where
  "pick_first [] = Inr (None, JUndefined)"
| "pick_first ((cid, conf) # rest) =
     ebind (js_get conf ''format'') (\<lambda>format.
       if format = JStr ''jwt_vc_json'' \<or> format = JStr ''jwt_vc''
       then Inr (Some cid, conf)
       else pick_first rest)"

text \<open>Lines 175 to 181 of the script: the check for no entries, the loop, and
  \<open>if (!pickedId)\<close> with the first entry as the fallback.\<close>

definition pick_config :: "(string \<times> jsval) list \<Rightarrow> js_error + (string \<times> jsval)" where
  "pick_config entries =
     (if length entries = 0 then Inl (Error ''No credential configurations discovered'')
      else
        ebind (pick_first entries) (\<lambda>(pickedId, picked).
          let fallback = (case entries of (cid, conf) # _ \<Rightarrow> Inr (cid, conf) | [] \<Rightarrow> Inl TypeError)
          in case pickedId of
               None \<Rightarrow> fallback
             | Some cid \<Rightarrow> if cid = [] then fallback else Inr (cid, picked)))"

definition select_config :: "jsval \<Rightarrow> js_error + (string \<times> jsval)" where
  "select_config issuerMeta =
     ebind (js_get issuerMeta ''credential_configurations_supported'') (\<lambda>supported.
       pick_config (js_entries (js_or supported (JObj []))))"

text \<open>\<open>(picked.types && picked.types[0]) || 'VerifiableId'\<close>\<close>

definition credential_type :: "jsval \<Rightarrow> js_error + jsval" where
  "credential_type picked =
     ebind (js_get picked ''types'') (\<lambda>types.
       Inr (js_or (js_and types (js_first types)) (JStr ''VerifiableId'')))"

text \<open>Lines 201 to 206: the code of the offer, \<open>authorization_code.issuer_state\<close>
  first, then the pre-authorized grant under its current and its legacy key.\<close>

definition find_code :: "jsval \<Rightarrow> js_error + jsval" where
  "find_code offer =
     (let code = js_get_opt (js_get_opt (js_get_opt offer ''grants'') ''authorization_code'')
                   ''issuer_state''
      in if \<not> truthy code then
           ebind
             (if truthy (js_get_opt offer ''grants'') then
                ebind (js_get offer ''grants'') (\<lambda>grants.
                ebind (js_get grants ''urn:ietf:params:oauth:grant-type:pre-authorized_code'')
                  (\<lambda>current.
                    if truthy current then Inr current
                    else ebind (js_get offer ''grants'') (\<lambda>grants.
                           js_get grants ''pre-authorized_code'')))
              else Inr (js_get_opt offer ''grants''))
             (\<lambda>grant.
               if truthy grant then
                 ebind (js_get grant ''pre_authorized_code'') (\<lambda>underscored.
                   if truthy underscored then Inr underscored
                   else js_get grant ''pre-authorized_code'')
               else Inr grant)
         else Inr code)"

text \<open>\<open>credentialResp.credential || credentialResp.jwt || credentialResp.vc\<close>\<close>

definition find_credential :: "jsval \<Rightarrow> js_error + jsval" where
  "find_credential credentialResp =
     ebind (js_get credentialResp ''credential'') (\<lambda>credential.
       if truthy credential then Inr credential
       else ebind (js_get credentialResp ''jwt'') (\<lambda>jwt.
              if truthy jwt then Inr jwt else js_get credentialResp ''vc''))"

definition check_mark :: string where
  "check_mark = [char_of (0xE2::nat), char_of (0x9C::nat), char_of (0x93::nat)]"

definition newline :: string where
  "newline = [char_of (10::nat)]"

text \<open>The body of \<open>main\<close>'s \<open>try\<close>, in parts: up to the resolved offer
  (\<open>main_offer\<close>); the code and its exchange (\<open>main_credential\<close>), followed by the
  request for the credential (\<open>main_request\<close>); the report on the response
  (\<open>main_report\<close>); the verification session (\<open>main_verify\<close>) and the closing lines
  (\<open>main_success\<close>).\<close>

definition main_offer :: "'k platform \<Rightarrow> (string \<times> jsval \<times> ('k \<times> 'k) \<times> jsval) step" where
  "main_offer P =
     bnd (say ''=== Starting walt.id End-to-End Test ==='') (\<lambda>_.
     bnd (say ''Discovering issuer configurations...'') (\<lambda>_.
     bnd (discoverIssuerConfigs P) (\<lambda>issuerMeta.
     bnd (say ''Successfully discovered issuer configurations'') (\<lambda>_.
     bnd (lift (select_config issuerMeta)) (\<lambda>(pickedId, picked).
     bnd (lift (credential_type picked)) (\<lambda>credentialType.
     bnd (log [JStr ''Using credentialConfigurationId:'', JStr pickedId, JStr ''type:'',
               credentialType]) (\<lambda>_.
     bnd (say ''Generating issuer key (Ed25519)...'') (\<lambda>_.
     bnd (generateEd25519Jwk P) (\<lambda>(issuerKey, privateKey).
     bnd (say ''Generating holder key (Ed25519)...'') (\<lambda>_.
     bnd (keygen P) (\<lambda>holderKey.
     bnd (say ''Starting issuance...'') (\<lambda>_.
     bnd (startIssuance P issuerKey pickedId credentialType) (\<lambda>issuanceUrl.
     bnd (log [JStr ''Issuance URL:'', issuanceUrl]) (\<lambda>_.
     bnd (say ''Parsing credential offer...'') (\<lambda>_.
     bnd (resolveOfferIfUri P issuanceUrl) (\<lambda>offer.
     bnd (say ''Credential offer parsed successfully'') (\<lambda>_.
     ret (pickedId, credentialType, holderKey, offer))))))))))))))))))"

definition main_request ::
  "'k platform \<Rightarrow> string \<Rightarrow> 'k \<times> 'k \<Rightarrow> jsval \<Rightarrow> jsval step" where
  "main_request P pickedId holderKey tokenResp =
     bnd (lift (js_get tokenResp ''access_token'')) (\<lambda>accessToken.
     bnd (lift (js_get tokenResp ''c_nonce'')) (\<lambda>c_nonce.
     bnd (log [JStr ''Access token acquired, c_nonce:'',
               JStr (if truthy c_nonce then ''present'' else ''not present'')]) (\<lambda>_.
     bnd (say ''Requesting credential IMMEDIATELY...'') (\<lambda>_.
     requestCredential P accessToken pickedId tokenResp holderKey))))"

definition main_credential ::
  "'k platform \<Rightarrow> string \<Rightarrow> 'k \<times> 'k \<Rightarrow> jsval \<Rightarrow> jsval step" where
  "main_credential P pickedId holderKey offer =
     bnd (lift (find_code offer)) (\<lambda>code.
     if \<not> truthy code
     then throw (Error ''Pre-authorized or authorization code not found in offer'')
     else
       bnd (say ''Got pre-authorized code'') (\<lambda>_.
       bnd (say ''Exchanging code for access token...'') (\<lambda>_.
       bnd (exchangePreAuthorizedCode P code) (\<lambda>tokenResp.
       main_request P pickedId holderKey tokenResp))))"

definition main_success :: "jsval \<Rightarrow> unit step" where
  "main_success verifySession =
     bnd (log [JStr ''Verification session response:'', verifySession]) (\<lambda>_.
     bnd (say (newline @ ''=== SUCCESS ==='')) (\<lambda>_.
     bnd (say (check_mark @ '' Credential issued successfully'')) (\<lambda>_.
     bnd (say (check_mark @ '' Verification session started'')) (\<lambda>_.
     bnd (say ''NOTE: Full VP submission flow not implemented (depends on session details).'')
       (\<lambda>_.
     say ''Extend script to build VP and submit to verifier token endpoint as next step.'')))))"

definition main_verify :: "'k platform \<Rightarrow> jsval \<Rightarrow> unit step" where
  "main_verify P credentialType =
     bnd (say ''Starting verification session...'') (\<lambda>_.
     bnd (startVerification P credentialType) (\<lambda>verifySession.
     main_success verifySession))"

definition main_report :: "'k platform \<Rightarrow> jsval \<Rightarrow> jsval \<Rightarrow> unit step" where
  "main_report P credentialType credentialResp =
     bnd (lift (js_keys credentialResp)) (\<lambda>keys.
     bnd (log [JStr ''Credential response keys:'', keys]) (\<lambda>_.
     bnd (lift (find_credential credentialResp)) (\<lambda>credentialJwt.
     bnd (if \<not> truthy credentialJwt
          then emit (ConsoleWarn [JStr ''Could not find credential JWT in response:'',
                                   credentialResp])
          else bnd (lift (js_substring0 credentialJwt 60)) (\<lambda>shown.
               log [JStr (check_mark @ '' CREDENTIAL RECEIVED! (truncated):''),
                    JStr (shown @ ''...'')])) (\<lambda>_.
     main_verify P credentialType))))"

definition main_try :: "'k platform \<Rightarrow> unit step" where
  "main_try P =
     bnd (main_offer P) (\<lambda>(pickedId, credentialType, holderKey, offer).
     bnd (main_credential P pickedId holderKey offer) (\<lambda>credentialResp.
     main_report P credentialType credentialResp))"

text \<open>\<open>e.response\<close>: only the HTTP client's error has one, when the server answered.\<close>

fun response :: "js_error \<Rightarrow> (int \<times> jsval) option" where
  "response (AxiosError r) = r"
| "response e = None"

text \<open>
  \<open>main\<close>: the \<open>catch\<close> prints the error (status and body when it has a response)
  and calls \<open>process.exit(1)\<close>; a run that reaches the end of the \<open>try\<close> leaves the
  process to end with exit code 0. The result is the exit code and the final world.
\<close>

definition main :: "'k platform \<Rightarrow> world \<Rightarrow> nat \<times> world" where
  "main P w =
     (case main_try P w of
        (Inr u, w') \<Rightarrow> (0, w')
      | (Inl e, w') \<Rightarrow>
          (1, w'\<lparr>trace := trace w' @
                 [ConsoleLog [JStr (newline @ ''=== ERROR ==='')],
                  (case response e of
                     Some (status, body) \<Rightarrow> ConsoleError [JStr ''HTTP Error:'', JNum status, body]
                   | None \<Rightarrow> ConsoleErrorThrown e)]\<rparr>))"

section \<open>The statements of the run\<close>

text \<open>
  The body of \<open>main\<close>'s \<open>try\<close> once more, statement by statement, so that a
  statement of the run can be spoken of. The variables of \<open>main\<close>; a statement takes
  their values and gives them back, with what it has assigned, unless it throws.
\<close>

record 'k vars =
  v_issuerMeta :: jsval
  v_pickedId :: string
  v_picked :: jsval
  v_credentialType :: jsval
  v_issuerKey :: "(string \<times> jsval) list"
  v_holderKey :: "'k \<times> 'k"
  v_issuanceUrl :: jsval
  v_offer :: jsval
  v_code :: jsval
  v_tokenResp :: jsval
  v_accessToken :: jsval
  v_credentialResp :: jsval
  v_credentialJwt :: jsval
  v_verifySession :: jsval

type_synonym 'k statement = "'k vars \<Rightarrow> 'k vars step"

text \<open>A statement that assigns nothing.\<close>

definition effect :: "unit step \<Rightarrow> 'v \<Rightarrow> 'v step" where
  "effect m v = bnd m (\<lambda>_. ret v)"

text \<open>Statements one after the other: the first that throws ends the sequence.\<close>

fun run :: "('v \<Rightarrow> 'v step) list \<Rightarrow> 'v \<Rightarrow> 'v step" where
  "run [] v = ret v"
| "run (s # ss) v = bnd (s v) (run ss)"

text \<open>Lines 168 to 234 of the script.\<close>

definition flow :: "'k platform \<Rightarrow> 'k statement list" where
  "flow P =
     [effect (say ''=== Starting walt.id End-to-End Test ===''),
      effect (say ''Discovering issuer configurations...''),
      (\<lambda>v. bnd (discoverIssuerConfigs P) (\<lambda>data. ret (v\<lparr>v_issuerMeta := data\<rparr>))),
      effect (say ''Successfully discovered issuer configurations''),
      (\<lambda>v. bnd (lift (select_config (v_issuerMeta v))) (\<lambda>(cid, conf).
             ret (v\<lparr>v_pickedId := cid, v_picked := conf\<rparr>))),
      (\<lambda>v. bnd (lift (credential_type (v_picked v))) (\<lambda>type.
             ret (v\<lparr>v_credentialType := type\<rparr>))),
      (\<lambda>v. effect (log [JStr ''Using credentialConfigurationId:'', JStr (v_pickedId v),
                          JStr ''type:'', v_credentialType v]) v),
      effect (say ''Generating issuer key (Ed25519)...''),
      (\<lambda>v. bnd (generateEd25519Jwk P) (\<lambda>(jwk, privateKey). ret (v\<lparr>v_issuerKey := jwk\<rparr>))),
      effect (say ''Generating holder key (Ed25519)...''),
      (\<lambda>v. bnd (keygen P) (\<lambda>keys. ret (v\<lparr>v_holderKey := keys\<rparr>))),
      effect (say ''Starting issuance...''),
      (\<lambda>v. bnd (startIssuance P (v_issuerKey v) (v_pickedId v) (v_credentialType v))
             (\<lambda>data. ret (v\<lparr>v_issuanceUrl := data\<rparr>))),
      (\<lambda>v. effect (log [JStr ''Issuance URL:'', v_issuanceUrl v]) v),
      effect (say ''Parsing credential offer...''),
      (\<lambda>v. bnd (resolveOfferIfUri P (v_issuanceUrl v)) (\<lambda>resolved.
             ret (v\<lparr>v_offer := resolved\<rparr>))),
      effect (say ''Credential offer parsed successfully''),
      (\<lambda>v. bnd (lift (find_code (v_offer v))) (\<lambda>found. ret (v\<lparr>v_code := found\<rparr>))),
      (\<lambda>v. if \<not> truthy (v_code v)
           then throw (Error ''Pre-authorized or authorization code not found in offer'')
           else ret v),
      effect (say ''Got pre-authorized code''),
      effect (say ''Exchanging code for access token...''),
      (\<lambda>v. bnd (exchangePreAuthorizedCode P (v_code v)) (\<lambda>data.
             ret (v\<lparr>v_tokenResp := data\<rparr>))),
      (\<lambda>v. bnd (lift (js_get (v_tokenResp v) ''access_token'')) (\<lambda>token.
             ret (v\<lparr>v_accessToken := token\<rparr>))),
      (\<lambda>v. bnd (lift (js_get (v_tokenResp v) ''c_nonce'')) (\<lambda>c_nonce.
             effect (log [JStr ''Access token acquired, c_nonce:'',
                          JStr (if truthy c_nonce then ''present'' else ''not present'')]) v)),
      effect (say ''Requesting credential IMMEDIATELY...''),
      (\<lambda>v. bnd (requestCredential P (v_accessToken v) (v_pickedId v) (v_tokenResp v)
                  (v_holderKey v))
             (\<lambda>data. ret (v\<lparr>v_credentialResp := data\<rparr>))),
      (\<lambda>v. bnd (lift (js_keys (v_credentialResp v))) (\<lambda>keys.
             effect (log [JStr ''Credential response keys:'', keys]) v)),
      (\<lambda>v. bnd (lift (find_credential (v_credentialResp v))) (\<lambda>found.
             ret (v\<lparr>v_credentialJwt := found\<rparr>))),
      (\<lambda>v. effect
             (if \<not> truthy (v_credentialJwt v)
              then emit (ConsoleWarn [JStr ''Could not find credential JWT in response:'',
                                       v_credentialResp v])
              else bnd (lift (js_substring0 (v_credentialJwt v) 60)) (\<lambda>shown.
                   log [JStr (check_mark @ '' CREDENTIAL RECEIVED! (truncated):''),
                        JStr (shown @ ''...'')])) v),
      effect (say ''Starting verification session...''),
      (\<lambda>v. bnd (startVerification P (v_credentialType v)) (\<lambda>data.
             ret (v\<lparr>v_verifySession := data\<rparr>))),
      (\<lambda>v. effect (log [JStr ''Verification session response:'', v_verifySession v]) v),
      effect (say (newline @ ''=== SUCCESS ==='')),
      effect (say (check_mark @ '' Credential issued successfully'')),
      effect (say (check_mark @ '' Verification session started'')),
      effect (say ''NOTE: Full VP submission flow not implemented (depends on session details).''),
      effect (say ''Extend script to build VP and submit to verifier token endpoint as next step.'')]"

section \<open>A JSON reader and writer for the examples\<close>

text \<open>
  The theorems below hold for every platform. The examples need one, and with it a
  reader of JSON texts. \<open>json_parse\<close> reads objects, arrays, strings with the
  two-character escapes, \<open>true\<close>, \<open>false\<close>, \<open>null\<close> and integers, with white space
  between the tokens; a later duplicate of a key replaces the value of the earlier one.
  It does not read \<open>\u\<close> escapes or numbers with a fraction or an exponent, and
  it keeps the keys in the order of the text (\<open>JSON.parse\<close> moves keys that are array
  indices to the front). \<open>json_stringify\<close> writes the compact text of \<open>JSON.stringify\<close>
  for values whose strings hold no control character.
\<close>

definition skip_ws :: "string \<Rightarrow> string" where
  "skip_ws s = dropWhile (\<lambda>c. c \<in> set [CHR '' '', char_of (9::nat), char_of (10::nat), char_of (13::nat)]) s"

definition unescape :: "char \<Rightarrow> char option" where
  "unescape e =
     (if e = CHR 0x22 \<or> e = CHR 0x5C \<or> e = CHR ''/'' then Some e
      else if e = CHR ''b'' then Some (char_of (8::nat))
      else if e = CHR ''f'' then Some (char_of (12::nat))
      else if e = CHR ''n'' then Some (char_of (10::nat))
      else if e = CHR ''r'' then Some (char_of (13::nat))
      else if e = CHR ''t'' then Some (char_of (9::nat))
      else None)"

text \<open>The characters of a string after its opening quote, and the rest of the text.\<close>

fun parse_chars :: "string \<Rightarrow> (string \<times> string) option" where
  "parse_chars [] = None"
| "parse_chars [c] = (if c = CHR 0x22 then Some ([], []) else None)"
| "parse_chars (c # e # cs) =
     (if c = CHR 0x22 then Some ([], e # cs)
      else if c = CHR 0x5C then
        (case unescape e of
           None \<Rightarrow> None
         | Some x \<Rightarrow> map_option (\<lambda>(s, r). (x # s, r)) (parse_chars cs))
      else if (of_char c :: nat) < 0x20 then None
      else map_option (\<lambda>(s, r). (c # s, r)) (parse_chars (e # cs)))"

definition is_digit :: "char \<Rightarrow> bool" where
  "is_digit c = (c \<in> set ''0123456789'')"

definition digits_val :: "string \<Rightarrow> nat" where
  "digits_val ds = foldl (\<lambda>n d. 10 * n + hex_val d) 0 ds"

text \<open>An integer: an optional minus sign, then \<open>0\<close> or digits that do not start with
  \<open>0\<close>; what follows must not go on as a fraction or an exponent.\<close>

definition parse_number :: "string \<Rightarrow> (jsval \<times> string) option" where
  "parse_number s =
     (let neg = (case s of c # _ \<Rightarrow> c = CHR ''-'' | [] \<Rightarrow> False);
          body = (if neg then drop 1 s else s);
          ds = takeWhile is_digit body;
          rest = dropWhile is_digit body
      in if ds = [] \<or> (1 < length ds \<and> hd ds = CHR ''0'') then None
         else if (case rest of c # _ \<Rightarrow> c \<in> set ''.eE'' | [] \<Rightarrow> False) then None
         else Some (JNum (if neg then - int (digits_val ds) else int (digits_val ds)), rest))"

definition starts_with :: "string \<Rightarrow> string \<Rightarrow> bool" where
  "starts_with word s = (take (length word) s = word)"

fun parse_value :: "nat \<Rightarrow> string \<Rightarrow> (jsval \<times> string) option"
  and parse_elements :: "nat \<Rightarrow> jsval list \<Rightarrow> string \<Rightarrow> (jsval \<times> string) option"
  and parse_members :: "nat \<Rightarrow> (string \<times> jsval) list \<Rightarrow> string \<Rightarrow> (jsval \<times> string) option"
where
  "parse_value 0 s = None"
| "parse_value (Suc n) s =
     (case skip_ws s of
        [] \<Rightarrow> None
      | c # cs \<Rightarrow>
          if c = CHR ''{'' then
            (case skip_ws cs of
               [] \<Rightarrow> None
             | d # ds \<Rightarrow> if d = CHR ''}'' then Some (JObj [], ds) else parse_members n [] cs)
          else if c = CHR ''['' then
            (case skip_ws cs of
               [] \<Rightarrow> None
             | d # ds \<Rightarrow> if d = CHR '']'' then Some (JArr [], ds) else parse_elements n [] cs)
          else if c = CHR 0x22 then map_option (\<lambda>(x, r). (JStr x, r)) (parse_chars cs)
          else if starts_with ''true'' (c # cs) then Some (JBool True, drop 4 (c # cs))
          else if starts_with ''false'' (c # cs) then Some (JBool False, drop 5 (c # cs))
          else if starts_with ''null'' (c # cs) then Some (JNull, drop 4 (c # cs))
          else parse_number (c # cs))"
| "parse_elements 0 acc s = None"
| "parse_elements (Suc n) acc s =
     (case parse_value n s of
        None \<Rightarrow> None
      | Some (v, r) \<Rightarrow>
          (case skip_ws r of
             [] \<Rightarrow> None
           | c # cs \<Rightarrow>
               if c = CHR '','' then parse_elements n (acc @ [v]) cs
               else if c = CHR '']'' then Some (JArr (acc @ [v]), cs)
               else None))"
| "parse_members 0 acc s = None"
| "parse_members (Suc n) acc s =
     (case skip_ws s of
        [] \<Rightarrow> None
      | q # qs \<Rightarrow>
          if q \<noteq> CHR 0x22 then None
          else
            (case parse_chars qs of
               None \<Rightarrow> None
             | Some (k, r) \<Rightarrow>
                 (case skip_ws r of
                    [] \<Rightarrow> None
                  | c # cs \<Rightarrow>
                      if c \<noteq> CHR '':'' then None
                      else
                        (case parse_value n cs of
                           None \<Rightarrow> None
                         | Some (v, r') \<Rightarrow>
                             (case skip_ws r' of
                                [] \<Rightarrow> None
                              | d # ds \<Rightarrow>
                                  if d = CHR '','' then parse_members n (set_prop acc k v) ds
                                  else if d = CHR ''}'' then Some (JObj (set_prop acc k v), ds)
                                  else None)))))"

definition json_parse :: "string \<Rightarrow> jsval option" where
  "json_parse s =
     (case parse_value (2 * length s + 2) s of
        None \<Rightarrow> None
      | Some (v, r) \<Rightarrow> if skip_ws r = [] then Some v else None)"

definition quote :: "string \<Rightarrow> string" where
  "quote s =
     CHR 0x22 # concat (map (\<lambda>c. if c = CHR 0x22 \<or> c = CHR 0x5C then [CHR 0x5C, c] else [c]) s)
       @ [CHR 0x22]"

text \<open>In an array \<open>undefined\<close> is written \<open>null\<close>; a property whose value is
  \<open>undefined\<close> is left out.\<close>

fun json_stringify :: "jsval \<Rightarrow> string" where
  "json_stringify JUndefined = ''null''"
| "json_stringify JNull = ''null''"
| "json_stringify (JBool b) = (if b then ''true'' else ''false'')"
| "json_stringify (JNum n) = dec_int n"
| "json_stringify (JStr s) = quote s"
| "json_stringify (JArr xs) = ''['' @ join '','' (map json_stringify xs) @ '']''"
| "json_stringify (JObj kvs) =
     ''{'' @ join '',''
       (map (\<lambda>(k, v). quote k @ '':'' @ json_stringify v)
          (filter (\<lambda>(k, v). v \<noteq> JUndefined) kvs)) @ ''}''"

section \<open>What the claims speak of\<close>

text \<open>The request for a credential: the payload, sent with the access token.\<close>

definition plain_payload :: "string \<Rightarrow> (string \<times> jsval) list" where
  "plain_payload ccid =
     [(''credential_configuration_id'', JStr ccid), (''format'', JStr ''jwt_vc_json'')]"

definition credential_request :: "jsval \<Rightarrow> (string \<times> jsval) list \<Rightarrow> request" where
  "credential_request accessToken payload =
     HttpPost credential_url (JObj payload)
       [(''Authorization'', ''Bearer '' @ js_to_string accessToken),
        (''Content-Type'', ''application/json'')]"

text \<open>The request to the token endpoint that redeems a code.\<close>

definition token_request :: "jsval \<Rightarrow> request" where
  "token_request code =
     HttpPost token_url
       (JStr (form_serialize
          [(''grant_type'', JStr ''urn:ietf:params:oauth:grant-type:pre-authorized_code''),
           (''pre-authorized_code'', code)]))
       [(''Content-Type'', ''application/x-www-form-urlencoded'')]"


fun is_token_post :: "event \<Rightarrow> bool" where
  "is_token_post (Sent (HttpPost url body headers)) = (url = token_url)"
| "is_token_post ev = False"

text \<open>A step only adds events, and every event it adds satisfies \<open>Q\<close>.\<close>

definition only :: "(event \<Rightarrow> bool) \<Rightarrow> 'a step \<Rightarrow> bool" where
  "only Q m = (\<forall>w. \<exists>evs. trace (snd (m w)) = trace w @ evs \<and> list_all Q evs)"

text \<open>
  The places of an offer where a code can stand: \<open>grants.authorization_code.issuer_state\<close>,
  and, under a grant key, the field \<open>pre_authorized_code\<close> or \<open>pre-authorized_code\<close>.
\<close>

definition CURRENT_KEY :: string where
  "CURRENT_KEY = ''urn:ietf:params:oauth:grant-type:pre-authorized_code''"

definition LEGACY_KEY :: string where
  "LEGACY_KEY = ''pre-authorized_code''"

definition issuer_state :: "jsval \<Rightarrow> jsval" where
  "issuer_state offer =
     js_get_opt (js_get_opt (js_get_opt offer ''grants'') ''authorization_code'') ''issuer_state''"

definition grant_code :: "jsval \<Rightarrow> string \<Rightarrow> jsval" where
  "grant_code offer key =
     (let grant = js_get_opt (js_get_opt offer ''grants'') key
      in js_or (js_get_opt grant ''pre_authorized_code'') (js_get_opt grant ''pre-authorized_code''))"

text \<open>The code the pre-authorized grants give: the grant is the one under the current
  key if that is set, else the one under the legacy key.\<close>

definition pre_authorized :: "jsval \<Rightarrow> jsval" where
  "pre_authorized offer =
     (let grants = js_get_opt offer ''grants'';
          grant = js_and grants (js_or (own_prop grants CURRENT_KEY) (own_prop grants LEGACY_KEY))
      in js_and grant
           (js_or (own_prop grant ''pre_authorized_code'') (own_prop grant ''pre-authorized_code'')))"

text \<open>The selection the specification describes: the first entry whose format is one
  of the two JWT formats, else the first entry.\<close>

definition format_matches :: "jsval \<Rightarrow> bool" where
  "format_matches conf =
     (own_prop conf ''format'' = JStr ''jwt_vc_json'' \<or> own_prop conf ''format'' = JStr ''jwt_vc'')"

definition first_match_else_first :: "(string \<times> jsval) list \<Rightarrow> (string \<times> jsval) option" where
  "first_match_else_first entries =
     (case find (\<lambda>(cid, conf). format_matches conf) entries of
        Some e \<Rightarrow> Some e
      | None \<Rightarrow> (case entries of e # _ \<Rightarrow> Some e | [] \<Rightarrow> None))"

text \<open>A parameter of the offer URL that is set to a non-empty value.\<close>

definition offer_param :: "string \<Rightarrow> string \<Rightarrow> string option" where
  "offer_param url name =
     (case params_get
             (URLSearchParams (case split_on CHR ''?'' url of _ # q # _ \<Rightarrow> q | _ \<Rightarrow> []))
             name of
        None \<Rightarrow> None
      | Some r \<Rightarrow> if r = [] then None else Some r)"

text \<open>
  The inline offer as the specification describes it, decoded and parsed directly:
  \<open>raw\<close> is the value of the parameter, which the parsing of the query has decoded,
  and it is read as JSON.
\<close>

definition parse_inline :: "'k platform \<Rightarrow> string \<Rightarrow> js_error + jsval" where
  "parse_inline P raw =
     (case JSON_parse P raw of None \<Rightarrow> Inl SyntaxError | Some offer \<Rightarrow> Inr offer)"

text \<open>
  Polling as the specification describes it: attempt \<open>k\<close> is the \<open>k\<close>-th retrieval
  after the world \<open>w\<close>; the attempt that decides is the first one that is answered,
  or the fifth; before it every attempt is followed by a pause of 500 ms.
\<close>

definition attempt :: "'k platform \<Rightarrow> string \<Rightarrow> world \<Rightarrow> nat \<Rightarrow> js_error + jsval" where
  "attempt P offerUri w k = http P (calls w + k) (HttpGet offerUri)"

definition deciding :: "'k platform \<Rightarrow> string \<Rightarrow> world \<Rightarrow> nat" where
  "deciding P offerUri w =
     (case find (\<lambda>k. \<not> isl (attempt P offerUri w k)) [0..<5] of Some k \<Rightarrow> k | None \<Rightarrow> 4)"

definition polling :: "string \<Rightarrow> nat \<Rightarrow> event list" where
  "polling offerUri k =
     concat (replicate k [Sent (HttpGet offerUri), Sleep 500]) @ [Sent (HttpGet offerUri)]"

text \<open>
  Resolution as the specification describes it: an inline offer is parsed directly;
  else the offer is retrieved from the \<open>credential_offer_uri\<close> by polling; with
  neither parameter the resolution fails.
\<close>

definition resolve_spec :: "'k platform \<Rightarrow> string \<Rightarrow> jsval step" where
  "resolve_spec P url w =
     (case offer_param url ''credential_offer'' of
        Some raw \<Rightarrow> (parse_inline P raw, w)
      | None \<Rightarrow>
          (case offer_param url ''credential_offer_uri'' of
             None \<Rightarrow> (Inl (Error ''No credential_offer or credential_offer_uri''), w)
           | Some offerUri \<Rightarrow>
               (let k = deciding P offerUri w
                in (attempt P offerUri w k,
                    w\<lparr>trace := trace w @ polling offerUri k, calls := calls w + k + 1\<rparr>))))"

section \<open>A mock platform\<close>

text \<open>
  The issuer and the verifier of the examples: the answers to the metadata request, to
  the issuance request, to the retrieval of an offer, to the token request and to the
  credential request are given; the verifier always answers. Keys are numbers, the
  signer writes header and claims side by side, the clock starts at a fixed time.
\<close>

definition discovery_url :: string where
  "discovery_url = ISSUER_BASE @ ''/'' @ STANDARD_VERSION @ ''/.well-known/openid-credential-issuer''"

definition not_found :: "js_error + jsval" where
  "not_found = Inl (AxiosError (Some (404, JStr ''Not Found'')))"

definition mock_http ::
  "(js_error + jsval) \<Rightarrow> (js_error + jsval) \<Rightarrow> (js_error + jsval) \<Rightarrow> (js_error + jsval) \<Rightarrow>
   (js_error + jsval) \<Rightarrow> nat \<Rightarrow> request \<Rightarrow> js_error + jsval" where
  "mock_http issuerMeta issuanceUrl offerDoc tokenResp credentialResp n req =
     (case req of
        HttpGet url \<Rightarrow> if url = discovery_url then issuerMeta else offerDoc
      | HttpPost url body headers \<Rightarrow>
          if url = ISSUER_BASE @ ''/openid4vc/jwt/issue'' then issuanceUrl
          else if url = token_url then tokenResp
          else if url = credential_url then credentialResp
          else if url = VERIFIER_BASE @ ''/openid4vc/verify''
          then Inr (JStr ''openid4vp://authorize?state=s1'')
          else not_found)"

definition mock ::
  "(js_error + jsval) \<Rightarrow> (js_error + jsval) \<Rightarrow> (js_error + jsval) \<Rightarrow> (js_error + jsval) \<Rightarrow>
   (js_error + jsval) \<Rightarrow> nat platform" where
  "mock issuerMeta issuanceUrl offerDoc tokenResp credentialResp =
     \<lparr> JSON_parse = json_parse,
       http = mock_http issuerMeta issuanceUrl offerDoc tokenResp credentialResp,
       generateKeyPair = (\<lambda>n. Inr (2 * n, 2 * n + 1)),
       exportJWK = (\<lambda>k. [(''kty'', JStr ''OKP''), (''crv'', JStr ''Ed25519''), (''x'', JStr (dec k))]),
       sign_jwt = (\<lambda>header claims k. Inr (json_stringify header @ ''.'' @ json_stringify claims)),
       random_uuid = (\<lambda>n. ''uuid-'' @ dec n),
       Date_now = (\<lambda>n. 1700000000000 + int n),
       toISOString = dec_int \<rparr>"

definition start :: world where
  "start = \<lparr> trace = [], calls = 0 \<rparr>"

text \<open>The scenario of the specification: one configuration \<open>university-degree-jwt\<close>
  of format \<open>jwt_vc_json\<close>, an offer with the pre-authorized code \<open>abc123\<close>, the token
  response \<open>{access_token: "tok1", c_nonce: "n1"}\<close> and the credential response
  \<open>{credential: "eyJ..."}\<close>.\<close>

definition demo_meta :: jsval where
  "demo_meta =
     JObj [(''credential_configurations_supported'',
              JObj [(''university-degree-jwt'', JObj [(''format'', JStr ''jwt_vc_json'')])])]"

definition offer_with :: "(string \<times> jsval) list \<Rightarrow> jsval" where
  "offer_with grants =
     JObj [(''credential_issuer'', JStr ''http://localhost:7002/draft13''),
           (''credential_configuration_ids'', JArr [JStr ''university-degree-jwt'']),
           (''grants'', JObj grants)]"

definition demo_offer :: jsval where
  "demo_offer =
     offer_with [(CURRENT_KEY, JObj [(''pre-authorized_code'', JStr ''abc123'')])]"

text \<open>An offer URL with the offer inline: the JSON text of the offer, URL-encoded, as
  the value of \<open>credential_offer\<close>.\<close>

definition offer_url :: "string \<Rightarrow> jsval \<Rightarrow> string" where
  "offer_url base offer =
     base @ ''?credential_offer='' @ encodeURIComponent (json_stringify offer)"

definition demo_token :: jsval where
  "demo_token = JObj [(''access_token'', JStr ''tok1''), (''c_nonce'', JStr ''n1'')]"

definition demo_credential :: jsval where
  "demo_credential = JObj [(''credential'', JStr ''eyJ...'')]"

text \<open>A short offer URL that points to the offer, and the issuer that serves \<open>offer\<close>
  there.\<close>

definition indirect_url :: string where
  "indirect_url = ''o://h/?credential_offer_uri=http%3A%2F%2Fh%2Fo''"

definition issuer_of :: "jsval \<Rightarrow> nat platform" where
  "issuer_of offer =
     mock (Inr demo_meta) (Inr (JStr indirect_url)) (Inr offer) (Inr demo_token)
       (Inr demo_credential)"

text \<open>An offer whose issuer URL holds a percent sign, and what the parser makes of
  it.\<close>

definition percent_offer :: jsval where
  "percent_offer = JObj [(''credential_issuer'', JStr ''http://h/a%20b'')]"

definition spaced_offer :: jsval where
  "spaced_offer = JObj [(''credential_issuer'', JStr ''http://h/a b'')]"

text \<open>Two configurations, the JWT one under the empty identifier.\<close>

definition empty_id_entries :: "(string \<times> jsval) list" where
  "empty_id_entries =
     [(''ldp'', JObj [(''format'', JStr ''ldp_vc'')]),
      ([], JObj [(''format'', JStr ''jwt_vc_json'')])]"

text \<open>An offer with both kinds of grant.\<close>

definition stated_offer :: jsval where
  "stated_offer =
     offer_with [(''authorization_code'', JObj [(''issuer_state'', JStr ''st1'')]),
                 (CURRENT_KEY, JObj [(''pre-authorized_code'', JStr ''abc123'')])]"

text \<open>The issuer that serves the offer only from the platform call \<open>k\<close> on, and the
  issuer whose metadata endpoint answers 503.\<close>

definition late_issuer :: "nat \<Rightarrow> jsval \<Rightarrow> nat platform" where
  "late_issuer k offer =
     (issuer_of offer)\<lparr>http :=
        (\<lambda>n req. if n < k then Inl (AxiosError None) else http (issuer_of offer) n req)\<rparr>"

definition down_issuer :: "nat platform" where
  "down_issuer =
     mock (Inl (AxiosError (Some (503, JStr ''down'')))) not_found not_found not_found not_found"

text \<open>The issuer whose token endpoint rejects the code, and variables not yet
  assigned.\<close>

definition rejecting_issuer :: "nat platform" where
  "rejecting_issuer =
     mock (Inr demo_meta) (Inr (JStr indirect_url)) (Inr demo_offer)
       (Inl (AxiosError (Some (400, JObj [(''error'', JStr ''invalid_grant'')])))) not_found"

definition unset :: "nat vars" where
  "unset =
     \<lparr> v_issuerMeta = JUndefined, v_pickedId = [], v_picked = JUndefined,
       v_credentialType = JUndefined, v_issuerKey = [], v_holderKey = (0, 0),
       v_issuanceUrl = JUndefined, v_offer = JUndefined, v_code = JUndefined,
       v_tokenResp = JUndefined, v_accessToken = JUndefined, v_credentialResp = JUndefined,
       v_credentialJwt = JUndefined, v_verifySession = JUndefined \<rparr>"

section \<open>Laws of sequencing\<close>

lemma bnd_ret: "bnd (ret x) f = f x"
  by (simp add: bnd_def ret_def)

lemma bnd_throw: "bnd (throw e) f = throw e"
  by (simp add: bnd_def throw_def)

lemma bnd_assoc: "bnd (bnd m f) g = bnd m (\<lambda>x. bnd (f x) g)"
  by (auto simp: bnd_def fun_eq_iff split: prod.splits sum.splits)

lemma bnd_lift_Inr: "bnd (lift (Inr x)) f = f x"
  by (simp add: bnd_def lift_def)

lemma bnd_lift_Inl: "bnd (lift (Inl e)) f = throw e"
  by (simp add: bnd_def lift_def throw_def)

lemma bnd_emit: "bnd (emit ev) f w = f () (w\<lparr>trace := trace w @ [ev]\<rparr>)"
  by (simp add: bnd_def emit_def)

lemma bnd_log: "bnd (log args) f w = f () (w\<lparr>trace := trace w @ [ConsoleLog args]\<rparr>)"
  by (simp add: log_def bnd_emit)

lemma bnd_say: "bnd (say msg) f w = f () (w\<lparr>trace := trace w @ [ConsoleLog [JStr msg]]\<rparr>)"
  by (simp add: say_def bnd_log)

lemma say_eq: "say msg w = (Inr (), w\<lparr>trace := trace w @ [ConsoleLog [JStr msg]]\<rparr>)"
  by (simp add: say_def log_def emit_def)

lemma bnd_now: "bnd (now P) f w = f (Date_now P (calls w)) (w\<lparr>calls := Suc (calls w)\<rparr>)"
  by (simp add: bnd_def now_def)

lemma bnd_uuid: "bnd (uuid P) f w = f (random_uuid P (calls w)) (w\<lparr>calls := Suc (calls w)\<rparr>)"
  by (simp add: bnd_def uuid_def)

lemma bnd_keygen:
  "bnd (keygen P) f w =
     (case generateKeyPair P (calls w) of
        Inl e \<Rightarrow> (Inl e, w\<lparr>calls := Suc (calls w)\<rparr>)
      | Inr k \<Rightarrow> f k (w\<lparr>calls := Suc (calls w)\<rparr>))"
  by (simp add: bnd_def keygen_def split: sum.splits)

lemma axios_post_eq:
  "axios_post P url body headers w =
     (http P (calls w) (HttpPost url body headers),
      w\<lparr>trace := trace w @ [Sent (HttpPost url body headers)], calls := Suc (calls w)\<rparr>)"
  by (simp add: axios_post_def http_call_def)

lemma axios_get_eq:
  "axios_get P url w =
     (http P (calls w) (HttpGet url),
      w\<lparr>trace := trace w @ [Sent (HttpGet url)], calls := Suc (calls w)\<rparr>)"
  by (simp add: axios_get_def http_call_def)

lemma bnd_Inr: "m w = (Inr x, w') \<Longrightarrow> bnd m f w = f x w'"
  by (simp add: bnd_def)

lemma bnd_Inl: "m w = (Inl e, w') \<Longrightarrow> bnd m f w = (Inl e, w')"
  by (simp add: bnd_def)

section \<open>Reading properties\<close>

lemma truthy_not_nullish: "truthy v \<Longrightarrow> \<not> nullish v"
  by (cases v) simp_all

lemma js_get_opt_own: "js_get_opt v k = own_prop v k"
  by (cases v) (simp_all add: js_get_opt_def)

lemma js_get_value: "\<not> nullish v \<Longrightarrow> js_get v k = Inr (own_prop v k)"
  by (simp add: js_get_def)

lemma js_get_truthy: "truthy v \<Longrightarrow> js_get v k = Inr (own_prop v k)"
  by (simp add: js_get_value truthy_not_nullish)

lemma own_prop_falsy: "\<not> truthy v \<Longrightarrow> own_prop v k = JUndefined"
  by (cases v) simp_all

section \<open>The credential request\<close>

lemma createProofOfPossession_eq:
  "createProofOfPossession P holderKey audience nonce w =
     (sign_jwt P (JObj (proof_header P (fst holderKey)))
        (JObj (proof_claims audience (Date_now P (calls w)) (Date_now P (Suc (calls w))) nonce))
        (snd holderKey),
      w\<lparr>trace := trace w @ [ConsoleLog [JStr ''  -> Creating proof of possession JWT...'']],
         calls := Suc (Suc (calls w))\<rparr>)"
  by (simp add: createProofOfPossession_def bnd_say bnd_now lift_def)

lemma bnd_createProofOfPossession:
  "bnd (createProofOfPossession P holderKey audience nonce) f w =
     (case sign_jwt P (JObj (proof_header P (fst holderKey)))
             (JObj (proof_claims audience (Date_now P (calls w)) (Date_now P (Suc (calls w)))
                nonce))
             (snd holderKey) of
        Inl e \<Rightarrow>
          (Inl e,
           w\<lparr>trace := trace w @ [ConsoleLog [JStr ''  -> Creating proof of possession JWT...'']],
              calls := Suc (Suc (calls w))\<rparr>)
      | Inr jwt \<Rightarrow>
          f jwt
            (w\<lparr>trace := trace w @ [ConsoleLog [JStr ''  -> Creating proof of possession JWT...'']],
               calls := Suc (Suc (calls w))\<rparr>))"
  by (simp add: bnd_def createProofOfPossession_eq split: sum.splits)

lemma nonce_of_claims: "map_of (proof_claims audience t t' nonce) ''nonce'' = Some nonce"
  by (simp add: proof_claims_def)

lemma requestCredential_plain:
  assumes "js_get tokenResponse ''c_nonce'' = Inr c" and "\<not> truthy c"
  shows "requestCredential P accessToken ccid tokenResponse holderKey w =
     (http P (calls w) (credential_request accessToken (plain_payload ccid)),
      w\<lparr>trace := trace w @
           [ConsoleLog [JStr ''  -> Requesting credential...''],
            ConsoleLog [JStr ''  -> Final payload:'', JObj (plain_payload ccid)],
            Sent (credential_request accessToken (plain_payload ccid))],
          calls := Suc (calls w)\<rparr>)"
  using assms
  by (simp add: requestCredential_def bnd_say bnd_ret bnd_lift_Inr bnd_log axios_post_eq
      credential_request_def plain_payload_def)

lemma requestCredential_proof:
  assumes "js_get tokenResponse ''c_nonce'' = Inr c" and "truthy c"
    and "sign_jwt P (JObj (proof_header P (fst holderKey)))
           (JObj (proof_claims (ISSUER_BASE @ ''/'' @ STANDARD_VERSION)
              (Date_now P (calls w)) (Date_now P (Suc (calls w))) c))
           (snd holderKey) = Inr jwt"
  shows "requestCredential P accessToken ccid tokenResponse holderKey w =
     (http P (Suc (Suc (calls w)))
        (credential_request accessToken
           (plain_payload ccid @
            [(''proof'', JObj [(''proof_type'', JStr ''jwt''), (''jwt'', JStr jwt)])])),
      w\<lparr>trace := trace w @
           [ConsoleLog [JStr ''  -> Requesting credential...''],
            ConsoleLog [JStr ''  -> Adding proof of possession (c_nonce present)''],
            ConsoleLog [JStr ''  -> c_nonce value:'', c],
            ConsoleLog [JStr ''  -> Creating proof of possession JWT...''],
            ConsoleLog [JStr ''  -> Generated proof JWT (first 100 chars):'', JStr (take 100 jwt)],
            ConsoleLog [JStr ''  -> Final payload:'',
              JObj (plain_payload ccid @
                [(''proof'', JObj [(''proof_type'', JStr ''jwt''), (''jwt'', JStr jwt)])])],
            Sent (credential_request accessToken
              (plain_payload ccid @
               [(''proof'', JObj [(''proof_type'', JStr ''jwt''), (''jwt'', JStr jwt)])]))],
          calls := Suc (Suc (Suc (calls w)))\<rparr>)"
  using assms
  by (simp add: requestCredential_def bnd_assoc bnd_say bnd_ret bnd_lift_Inr bnd_log
      bnd_createProofOfPossession axios_post_eq credential_request_def plain_payload_def)

section \<open>The code of an offer\<close>

lemma js_get_parent: "truthy (own_prop v k) \<Longrightarrow> js_get v k' = Inr (own_prop v k')"
  by (cases v) (simp_all add: js_get_def)

lemma find_code_eq:
  "find_code offer =
     Inr (if truthy (issuer_state offer) then issuer_state offer else pre_authorized offer)"
proof (cases "truthy (own_prop offer ''grants'')")
  case True
  then show ?thesis
    by (simp add: find_code_def issuer_state_def pre_authorized_def js_get_opt_own Let_def
        js_or_def js_and_def ebind_def js_get_truthy js_get_parent CURRENT_KEY_def LEGACY_KEY_def)
next
  case False
  then show ?thesis
    by (simp add: find_code_def issuer_state_def pre_authorized_def js_get_opt_own Let_def
        js_or_def js_and_def ebind_def own_prop_falsy)
qed

lemma pre_authorized_falsy:
  assumes "\<not> truthy (grant_code offer CURRENT_KEY)" and "\<not> truthy (grant_code offer LEGACY_KEY)"
  shows "\<not> truthy (pre_authorized offer)"
proof (cases "truthy (own_prop offer ''grants'')")
  case True
  with assms show ?thesis
    by (auto simp: pre_authorized_def grant_code_def js_get_opt_own Let_def js_or_def js_and_def
        own_prop_falsy split: if_splits)
next
  case False
  then show ?thesis
    by (simp add: pre_authorized_def js_get_opt_own Let_def js_and_def)
qed

lemma main_credential_no_code:
  assumes "\<not> truthy (issuer_state offer)"
    and "\<not> truthy (grant_code offer CURRENT_KEY)" and "\<not> truthy (grant_code offer LEGACY_KEY)"
  shows "main_credential P pickedId holderKey offer w =
           (Inl (Error ''Pre-authorized or authorization code not found in offer''), w)"
  using assms(1) pre_authorized_falsy [OF assms(2,3)]
  by (simp add: main_credential_def find_code_eq bnd_lift_Inr throw_def)

section \<open>Steps that only add events\<close>

lemma only_ret: "only Q (ret x)"
  by (simp add: only_def ret_def)

lemma only_throw: "only Q (throw e)"
  by (simp add: only_def throw_def)

lemma only_lift: "only Q (lift r)"
  by (simp add: only_def lift_def)

lemma only_emit: "Q ev \<Longrightarrow> only Q (emit ev)"
  by (simp add: only_def emit_def)

lemma only_log: "Q (ConsoleLog args) \<Longrightarrow> only Q (log args)"
  by (simp add: log_def only_emit)

lemma only_say: "Q (ConsoleLog [JStr msg]) \<Longrightarrow> only Q (say msg)"
  by (simp add: say_def only_log)

lemma only_now: "only Q (now P)"
  by (simp add: only_def now_def)

lemma only_uuid: "only Q (uuid P)"
  by (simp add: only_def uuid_def)

lemma only_keygen: "only Q (keygen P)"
  by (simp add: only_def keygen_def)

lemma only_get: "Q (Sent (HttpGet url)) \<Longrightarrow> only Q (axios_get P url)"
  by (simp add: only_def axios_get_def http_call_def)

lemma only_post:
  "Q (Sent (HttpPost url body headers)) \<Longrightarrow> only Q (axios_post P url body headers)"
  by (simp add: only_def axios_post_def http_call_def)

lemma only_bnd:
  assumes "only Q m" and "\<And>x. only Q (f x)"
  shows "only Q (bnd m f)"
  unfolding only_def
proof
  fix w
  obtain r w' where mw: "m w = (r, w')" by (cases "m w")
  from assms(1) mw obtain evs where evs: "trace w' = trace w @ evs" "list_all Q evs"
    by (fastforce simp: only_def dest: spec [where x = w])
  show "\<exists>evs. trace (snd (bnd m f w)) = trace w @ evs \<and> list_all Q evs"
  proof (cases r)
    case (Inl e)
    with mw evs show ?thesis by (simp add: bnd_def)
  next
    case (Inr x)
    from assms(2) [of x] obtain evs' where
      "trace (snd (f x w')) = trace w' @ evs'" "list_all Q evs'"
      by (fastforce simp: only_def dest: spec [where x = w'])
    with mw evs Inr show ?thesis by (simp add: bnd_def)
  qed
qed

lemma only_if: "only Q a \<Longrightarrow> only Q b \<Longrightarrow> only Q (if c then a else b)"
  by simp

lemma only_pair: "(\<And>a b. only Q (f a b)) \<Longrightarrow> only Q (case p of (a, b) \<Rightarrow> f a b)"
  by (cases p) simp

declare fetch_from.simps [simp del]

lemma only_fetch_from:
  assumes "Q (Sent (HttpGet offerUri))" and "Q (Sleep delayMs)"
  shows "\<exists>evs. trace (snd (fetch_from P offerUri attempts delayMs i w)) = trace w @ evs
           \<and> list_all Q evs"
proof (induction "attempts - i" arbitrary: i w)
  case 0
  then show ?case by (subst fetch_from.simps) simp
next
  case (Suc n)
  then have less: "i < attempts" by simp
  let ?w' = "w\<lparr>trace := trace w @ [Sent (HttpGet offerUri)], calls := Suc (calls w)\<rparr>"
  show ?case
  proof (cases "http P (calls w) (HttpGet offerUri)")
    case (Inr d)
    with less assms show ?thesis
      by (subst fetch_from.simps) (simp add: axios_get_eq)
  next
    case (Inl e)
    show ?thesis
    proof (cases "i = attempts - 1")
      case True
      with less Inl assms show ?thesis
        by (subst fetch_from.simps) (simp add: axios_get_eq)
    next
      case False
      from Suc.hyps(2) have "n = attempts - Suc i" by simp
      from Suc.hyps(1) [OF this, of "snd (emit (Sleep delayMs) ?w')"]
      obtain evs where
        "trace (snd (fetch_from P offerUri attempts delayMs (Suc i)
                       (snd (emit (Sleep delayMs) ?w')))) =
           trace (snd (emit (Sleep delayMs) ?w')) @ evs" "list_all Q evs"
        by blast
      with less False Inl assms show ?thesis
        by (subst fetch_from.simps) (simp add: axios_get_eq emit_def)
    qed
  qed
qed

lemma only_fetch:
  "Q (Sent (HttpGet offerUri)) \<Longrightarrow> Q (Sleep delayMs) \<Longrightarrow>
   only Q (fetchCredentialOfferWithRetry P offerUri attempts delayMs)"
  unfolding only_def fetchCredentialOfferWithRetry_def
  by (intro allI only_fetch_from)

lemma only_resolve:
  assumes "\<And>url. Q (Sent (HttpGet url))" and "\<And>n. Q (Sleep n)"
  shows "only Q (resolveOfferIfUri P offerUrl)"
proof -
  have "only Q
          (case params_get params ''credential_offer_uri'' of
             None \<Rightarrow> throw (Error ''No credential_offer or credential_offer_uri'')
           | Some offerUri \<Rightarrow>
               if offerUri = [] then throw (Error ''No credential_offer or credential_offer_uri'')
               else fetchCredentialOfferWithRetry P offerUri 5 500)" for params
    by (cases "params_get params ''credential_offer_uri''")
      (simp_all add: only_throw only_fetch assms)
  then show ?thesis
    unfolding resolveOfferIfUri_def Let_def
    by (intro only_bnd only_lift only_if) simp_all
qed

section \<open>The polling loop\<close>

lemma fetch_from_answered:
  assumes "i + j < attempts"
    and "\<forall>k<j. isl (http P (calls w + k) (HttpGet offerUri))"
    and "http P (calls w + j) (HttpGet offerUri) = Inr d"
  shows "fetch_from P offerUri attempts delayMs i w =
     (Inr d,
      w\<lparr>trace := trace w @ concat (replicate j [Sent (HttpGet offerUri), Sleep delayMs])
                   @ [Sent (HttpGet offerUri)],
         calls := calls w + j + 1\<rparr>)"
  using assms
proof (induction j arbitrary: i w)
  case 0
  then show ?case
    by (subst fetch_from.simps) (simp add: axios_get_eq)
next
  case (Suc j)
  let ?w' = "snd (emit (Sleep delayMs)
                 (w\<lparr>trace := trace w @ [Sent (HttpGet offerUri)], calls := Suc (calls w)\<rparr>))"
  have w': "trace ?w' = trace w @ [Sent (HttpGet offerUri), Sleep delayMs]"
    "calls ?w' = Suc (calls w)"
    by (simp_all add: emit_def)
  from Suc.prems(2) obtain e where e: "http P (calls w) (HttpGet offerUri) = Inl e"
    by (metis add.right_neutral isl_def zero_less_Suc)
  have "fetch_from P offerUri attempts delayMs (Suc i) ?w' =
     (Inr d,
      ?w'\<lparr>trace := trace ?w' @ concat (replicate j [Sent (HttpGet offerUri), Sleep delayMs])
                   @ [Sent (HttpGet offerUri)],
          calls := calls ?w' + j + 1\<rparr>)"
  proof (rule Suc.IH)
    show "Suc i + j < attempts" using Suc.prems(1) by simp
    show "\<forall>k<j. isl (http P (calls ?w' + k) (HttpGet offerUri))"
      using Suc.prems(2) by (auto simp: w' dest: spec [where x = "Suc k" for k])
    show "http P (calls ?w' + j) (HttpGet offerUri) = Inr d"
      using Suc.prems(3) by (simp add: w')
  qed
  then have "fetch_from P offerUri attempts delayMs (Suc i) ?w' =
     (Inr d,
      w\<lparr>trace := trace w @ concat (replicate (Suc j) [Sent (HttpGet offerUri), Sleep delayMs])
                   @ [Sent (HttpGet offerUri)],
         calls := calls w + Suc j + 1\<rparr>)"
    by (simp add: emit_def)
  moreover have "fetch_from P offerUri attempts delayMs i w =
      fetch_from P offerUri attempts delayMs (Suc i) ?w'"
  proof -
    from Suc.prems(1) have "i < attempts" "i \<noteq> attempts - 1" by arith+
    with e show ?thesis by (subst fetch_from.simps) (simp add: axios_get_eq)
  qed
  ultimately show ?case by simp
qed

lemma fetch_from_exhausted:
  assumes "attempts = Suc (i + n)"
    and "\<forall>k\<le>n. isl (http P (calls w + k) (HttpGet offerUri))"
  shows "fetch_from P offerUri attempts delayMs i w =
     (http P (calls w + n) (HttpGet offerUri),
      w\<lparr>trace := trace w @ concat (replicate n [Sent (HttpGet offerUri), Sleep delayMs])
                   @ [Sent (HttpGet offerUri)],
         calls := calls w + n + 1\<rparr>)"
  using assms
proof (induction n arbitrary: i w)
  case 0
  then obtain e where "http P (calls w) (HttpGet offerUri) = Inl e"
    by (auto simp: isl_def)
  with 0 show ?case
    by (subst fetch_from.simps) (simp add: axios_get_eq)
next
  case (Suc n)
  let ?w' = "snd (emit (Sleep delayMs)
                 (w\<lparr>trace := trace w @ [Sent (HttpGet offerUri)], calls := Suc (calls w)\<rparr>))"
  have w': "trace ?w' = trace w @ [Sent (HttpGet offerUri), Sleep delayMs]"
    "calls ?w' = Suc (calls w)"
    by (simp_all add: emit_def)
  from Suc.prems(2) obtain e where e: "http P (calls w) (HttpGet offerUri) = Inl e"
    by (metis add.right_neutral isl_def le0)
  have "fetch_from P offerUri attempts delayMs (Suc i) ?w' =
     (http P (calls ?w' + n) (HttpGet offerUri),
      ?w'\<lparr>trace := trace ?w' @ concat (replicate n [Sent (HttpGet offerUri), Sleep delayMs])
                   @ [Sent (HttpGet offerUri)],
          calls := calls ?w' + n + 1\<rparr>)"
  proof (rule Suc.IH)
    show "attempts = Suc (Suc i + n)" using Suc.prems(1) by simp
    show "\<forall>k\<le>n. isl (http P (calls ?w' + k) (HttpGet offerUri))"
      using Suc.prems(2) by (auto simp: w' dest: spec [where x = "Suc k" for k])
  qed
  then have "fetch_from P offerUri attempts delayMs (Suc i) ?w' =
     (http P (calls w + Suc n) (HttpGet offerUri),
      w\<lparr>trace := trace w @ concat (replicate (Suc n) [Sent (HttpGet offerUri), Sleep delayMs])
                   @ [Sent (HttpGet offerUri)],
         calls := calls w + Suc n + 1\<rparr>)"
    by (simp add: emit_def)
  moreover have "fetch_from P offerUri attempts delayMs i w =
      fetch_from P offerUri attempts delayMs (Suc i) ?w'"
  proof -
    from Suc.prems(1) have "i < attempts" "i \<noteq> attempts - 1" by arith+
    with e show ?thesis by (subst fetch_from.simps) (simp add: axios_get_eq)
  qed
  ultimately show ?case by simp
qed

lemma deciding_cases:
  "(deciding P offerUri w = 4 \<and> (\<forall>k\<le>4. isl (attempt P offerUri w k)))
   \<or> (deciding P offerUri w < 5 \<and> \<not> isl (attempt P offerUri w (deciding P offerUri w))
       \<and> (\<forall>k<deciding P offerUri w. isl (attempt P offerUri w k)))"
proof (cases "find (\<lambda>k. \<not> isl (attempt P offerUri w k)) [0..<5]")
  case None
  then have "\<forall>k\<le>4. isl (attempt P offerUri w k)"
    by (auto simp: find_None_iff)
  with None show ?thesis by (simp add: deciding_def)
next
  case (Some k)
  then obtain i where "i < length [0..<5]" "\<not> isl (attempt P offerUri w ([0..<5] ! i))"
    "k = [0..<5] ! i" "\<forall>j<i. isl (attempt P offerUri w ([0..<5] ! j))"
    unfolding find_Some_iff by blast
  then have "k < 5" "\<not> isl (attempt P offerUri w k)" "\<forall>j<k. isl (attempt P offerUri w j)"
    by (simp_all del: upt_Suc)
  with Some show ?thesis by (simp add: deciding_def)
qed

lemma fetch_spec:
  "fetchCredentialOfferWithRetry P offerUri 5 500 w =
     (attempt P offerUri w (deciding P offerUri w),
      w\<lparr>trace := trace w @ polling offerUri (deciding P offerUri w),
         calls := calls w + deciding P offerUri w + 1\<rparr>)"
proof -
  from deciding_cases [of P offerUri w] show ?thesis
  proof
    assume a: "deciding P offerUri w = 4 \<and> (\<forall>k\<le>4. isl (attempt P offerUri w k))"
    then have "fetch_from P offerUri 5 500 0 w =
       (http P (calls w + 4) (HttpGet offerUri),
        w\<lparr>trace := trace w @ concat (replicate 4 [Sent (HttpGet offerUri), Sleep 500])
                     @ [Sent (HttpGet offerUri)],
           calls := calls w + 4 + 1\<rparr>)"
      by (intro fetch_from_exhausted) (simp_all add: attempt_def)
    with a show ?thesis
      by (simp add: fetchCredentialOfferWithRetry_def attempt_def polling_def)
  next
    let ?k = "deciding P offerUri w"
    assume a: "?k < 5 \<and> \<not> isl (attempt P offerUri w ?k)
                \<and> (\<forall>k<?k. isl (attempt P offerUri w k))"
    then obtain d where d: "http P (calls w + ?k) (HttpGet offerUri) = Inr d"
      by (cases "http P (calls w + ?k) (HttpGet offerUri)") (simp_all add: attempt_def)
    have "fetch_from P offerUri 5 500 0 w =
       (Inr d,
        w\<lparr>trace := trace w @ concat (replicate ?k [Sent (HttpGet offerUri), Sleep 500])
                     @ [Sent (HttpGet offerUri)],
           calls := calls w + ?k + 1\<rparr>)"
      using a d by (intro fetch_from_answered) (simp_all add: attempt_def)
    with d show ?thesis
      by (simp add: fetchCredentialOfferWithRetry_def attempt_def polling_def)
  qed
qed

lemma parse_offer_param:
  "offer_param url ''credential_offer'' = Some raw \<Longrightarrow>
   parseCredentialOfferUrl P (JStr url) =
     ebind (decodeURIComponent raw) (\<lambda>decoded.
       case JSON_parse P decoded of None \<Rightarrow> Inl SyntaxError | Some offer \<Rightarrow> Inr offer)"
  by (auto simp: parseCredentialOfferUrl_def offer_param_def url_query_def ebind_def
      Let_def split: option.splits if_splits)

lemma lift_apply: "lift r w = (r, w)"
  by (simp add: lift_def)

lemma resolve_inline:
  "offer_param url ''credential_offer'' = Some raw \<Longrightarrow>
   resolveOfferIfUri P (JStr url) w = (parseCredentialOfferUrl P (JStr url), w)"
  by (auto simp: resolveOfferIfUri_def offer_param_def url_query_def bnd_lift_Inr lift_apply
      Let_def split: option.splits if_splits)

lemma resolve_retrieved:
  "offer_param url ''credential_offer'' = None \<Longrightarrow>
   resolveOfferIfUri P (JStr url) w = resolve_spec P url w"
  by (auto simp: resolveOfferIfUri_def resolve_spec_def offer_param_def url_query_def
      bnd_lift_Inr throw_def fetch_spec Let_def split: option.splits if_splits)

section \<open>The parts of the run\<close>

lemma bnd_get:
  "bnd (axios_get P url) f w =
     (case http P (calls w) (HttpGet url) of
        Inl e \<Rightarrow> (Inl e, w\<lparr>trace := trace w @ [Sent (HttpGet url)], calls := Suc (calls w)\<rparr>)
      | Inr x \<Rightarrow> f x (w\<lparr>trace := trace w @ [Sent (HttpGet url)], calls := Suc (calls w)\<rparr>))"
  by (simp add: bnd_def axios_get_eq split: sum.splits)

lemma bnd_post:
  "bnd (axios_post P url body headers) f w =
     (case http P (calls w) (HttpPost url body headers) of
        Inl e \<Rightarrow>
          (Inl e,
           w\<lparr>trace := trace w @ [Sent (HttpPost url body headers)], calls := Suc (calls w)\<rparr>)
      | Inr x \<Rightarrow>
          f x (w\<lparr>trace := trace w @ [Sent (HttpPost url body headers)],
                 calls := Suc (calls w)\<rparr>))"
  by (simp add: bnd_def axios_post_eq split: sum.splits)

lemma bnd_post_trace:
  assumes "\<And>x. only Q (f x)"
  shows "\<exists>evs. trace (snd (bnd (axios_post P url body headers) f w)) =
           trace w @ Sent (HttpPost url body headers) # evs"
proof (cases "http P (calls w) (HttpPost url body headers)")
  case (Inl e)
  then show ?thesis by (simp add: bnd_post)
next
  case (Inr x)
  let ?w' = "w\<lparr>trace := trace w @ [Sent (HttpPost url body headers)], calls := Suc (calls w)\<rparr>"
  from assms [of x] obtain evs where "trace (snd (f x ?w')) = trace ?w' @ evs"
    unfolding only_def by blast
  with Inr show ?thesis by (simp add: bnd_post)
qed

lemma only_createProofOfPossession:
  "Q (ConsoleLog [JStr ''  -> Creating proof of possession JWT...'']) \<Longrightarrow>
   only Q (createProofOfPossession P holderKey audience nonce)"
  unfolding createProofOfPossession_def
  by (intro only_bnd only_say only_now only_lift)

lemma only_requestCredential:
  "only (\<lambda>ev. True) (requestCredential P accessToken ccid tokenResponse holderKey)"
  unfolding requestCredential_def
  by (intro only_bnd only_say only_log only_ret only_lift only_if only_post
      only_createProofOfPossession) simp_all

lemma only_main_request: "only (\<lambda>ev. True) (main_request P pickedId holderKey tokenResp)"
  unfolding main_request_def
  by (intro only_bnd only_say only_log only_lift only_requestCredential) simp_all


lemma only_main_offer: "only (\<lambda>ev. \<not> is_token_post ev) (main_offer P)"
  unfolding main_offer_def discoverIssuerConfigs_def generateEd25519Jwk_def startIssuance_def
  by (intro only_bnd only_pair only_say only_log only_get only_post only_lift only_keygen
      only_uuid only_now only_ret only_resolve)
    (simp_all add: token_url_def ISSUER_BASE_def STANDARD_VERSION_def)

lemma main_credential_code:
  assumes "find_code offer = Inr code" and "truthy code"
  shows "main_credential P pickedId holderKey offer w =
     bnd (http_call P (token_request code)) (main_request P pickedId holderKey)
       (w\<lparr>trace := trace w @
            [ConsoleLog [JStr ''Got pre-authorized code''],
             ConsoleLog [JStr ''Exchanging code for access token...''],
             ConsoleLog [JStr ''  -> Exchanging pre-authorized code...'']]\<rparr>)"
  using assms
  by (simp add: main_credential_def bnd_lift_Inr bnd_say bnd_assoc exchangePreAuthorizedCode_def
      token_request_def axios_post_def)

lemma main_credential_sends:
  assumes "find_code offer = Inr code" and "truthy code"
  shows "\<exists>evs. trace (snd (main_credential P pickedId holderKey offer w)) =
     trace w @
       [ConsoleLog [JStr ''Got pre-authorized code''],
        ConsoleLog [JStr ''Exchanging code for access token...''],
        ConsoleLog [JStr ''  -> Exchanging pre-authorized code...''],
        Sent (token_request code)] @ evs"
proof -
  let ?w = "w\<lparr>trace := trace w @
            [ConsoleLog [JStr ''Got pre-authorized code''],
             ConsoleLog [JStr ''Exchanging code for access token...''],
             ConsoleLog [JStr ''  -> Exchanging pre-authorized code...'']]\<rparr>"
  obtain url body headers where r: "token_request code = HttpPost url body headers"
    by (simp add: token_request_def)
  from bnd_post_trace [of "\<lambda>ev. True" "main_request P pickedId holderKey" P url body headers ?w]
  obtain evs where
    "trace (snd (bnd (axios_post P url body headers) (main_request P pickedId holderKey) ?w)) =
       trace ?w @ Sent (HttpPost url body headers) # evs"
    using only_main_request by blast
  then show ?thesis
    by (simp add: main_credential_code [OF assms] r axios_post_def)
qed


section \<open>The credential of a response\<close>



section \<open>Evaluating the mock platform\<close>

lemma http_mock_get:
  "http (mock issuerMeta issuanceUrl offerDoc tokenResp credentialResp) n (HttpGet url) =
     (if url = discovery_url then issuerMeta else offerDoc)"
  by (simp add: mock_def mock_http_def)

lemma http_mock_post:
  "http (mock issuerMeta issuanceUrl offerDoc tokenResp credentialResp) n
     (HttpPost url body headers) =
     (if url = ISSUER_BASE @ ''/openid4vc/jwt/issue'' then issuanceUrl
      else if url = token_url then tokenResp
      else if url = credential_url then credentialResp
      else if url = VERIFIER_BASE @ ''/openid4vc/verify''
      then Inr (JStr ''openid4vp://authorize?state=s1'')
      else not_found)"
  by (simp add: mock_def mock_http_def)

lemma keys_mock:
  "generateKeyPair (mock issuerMeta issuanceUrl offerDoc tokenResp credentialResp) n =
     Inr (2 * n, 2 * n + 1)"
  by (simp add: mock_def)

lemma sign_mock:
  "sign_jwt (mock issuerMeta issuanceUrl offerDoc tokenResp credentialResp) header claims k =
     Inr (json_stringify header @ ''.'' @ json_stringify claims)"
  by (simp add: mock_def)

lemma parse_mock:
  "JSON_parse (mock issuerMeta issuanceUrl offerDoc tokenResp credentialResp) = json_parse"
  by (simp add: mock_def)

lemma select_demo:
  "select_config demo_meta =
     Inr (''university-degree-jwt'', JObj [(''format'', JStr ''jwt_vc_json'')])"
  by (simp add: select_config_def demo_meta_def js_get_def js_or_def ebind_def pick_config_def)

lemma type_demo:
  "credential_type (JObj [(''format'', JStr ''jwt_vc_json'')]) = Inr (JStr ''VerifiableId'')"
  by (simp add: credential_type_def js_get_def js_or_def js_and_def ebind_def)

lemma indirect_inline: "offer_param indirect_url ''credential_offer'' = None"
  by code_simp

lemma indirect_uri: "offer_param indirect_url ''credential_offer_uri'' = Some ''http://h/o''"
  by code_simp

lemma not_discovery: "''http://h/o'' \<noteq> discovery_url"
  by (simp add: discovery_url_def ISSUER_BASE_def)

lemma resolve_indirect:
  assumes "http P (calls w) (HttpGet ''http://h/o'') = Inr offer"
  shows "resolveOfferIfUri P (JStr indirect_url) w =
     (Inr offer,
      w\<lparr>trace := trace w @ [Sent (HttpGet ''http://h/o'')], calls := Suc (calls w)\<rparr>)"
proof -
  have "deciding P ''http://h/o'' w = 0"
    using assms by (simp add: deciding_def attempt_def upt_rec)
  with assms show ?thesis
    by (simp add: resolve_retrieved [OF indirect_inline] resolve_spec_def indirect_inline
        indirect_uri attempt_def
        polling_def)
qed

lemma bnd_resolve_indirect:
  assumes "http P (calls w) (HttpGet ''http://h/o'') = Inr offer"
  shows "bnd (resolveOfferIfUri P (JStr indirect_url)) f w =
     f offer (w\<lparr>trace := trace w @ [Sent (HttpGet ''http://h/o'')], calls := Suc (calls w)\<rparr>)"
  by (simp add: bnd_def resolve_indirect [OF assms])

lemma ret_apply: "ret x w = (Inr x, w)"
  by (simp add: ret_def)

lemma main_offer_issuer_of:
  "fst (main_offer (issuer_of offer) start) =
     Inr (''university-degree-jwt'', JStr ''VerifiableId'', (6, 7), offer)"
  by (simp add: main_offer_def discoverIssuerConfigs_def generateEd25519Jwk_def
      startIssuance_def issuer_of_def start_def bnd_assoc bnd_say bnd_log bnd_get bnd_post
      bnd_keygen bnd_uuid bnd_now bnd_ret bnd_lift_Inr http_mock_get http_mock_post keys_mock
      select_demo type_demo bnd_resolve_indirect not_discovery ret_apply discovery_url_def)

section \<open>Decoding an encoded value once\<close>

lemma hex_all:
  "list_all (\<lambda>k. is_hex (''0123456789ABCDEF'' ! k) \<and> hex_val (''0123456789ABCDEF'' ! k) = k)
     [0..<16]"
  by code_simp

lemma hex_table:
  assumes "k < 16"
  shows "is_hex (''0123456789ABCDEF'' ! k) \<and> hex_val (''0123456789ABCDEF'' ! k) = k"
  using hex_all assms unfolding list_all_iff by simp

lemma is_hex_digit: "is_hex (hex_digit n)"
  by (simp add: hex_digit_def hex_table)

lemma hex_val_digit: "hex_val (hex_digit n) = n mod 16"
  by (simp add: hex_digit_def hex_table)

lemma hex_byte_digits: "hex_byte (hex_digit (of_char c div 16)) (hex_digit (of_char c)) = c"
proof -
  have "(of_char c :: nat) mod 256 = of_char c" by simp
  then have "(of_char c :: nat) < 256"
    by (metis mod_less_divisor zero_less_numeral)
  then have "(of_char c :: nat) div 16 < 16"
    by (simp add: less_mult_imp_div_less)
  then have "16 * ((of_char c :: nat) div 16 mod 16) + of_char c mod 16 = of_char c"
    by simp
  then show ?thesis
    by (simp add: hex_byte_def hex_val_digit)
qed

lemma percent_decode_plain: "c \<noteq> CHR ''%'' \<Longrightarrow> percent_decode (c # xs) = c # percent_decode xs"
proof (cases xs)
  case Nil
  then show ?thesis by simp
next
  case (Cons h ys)
  assume "c \<noteq> CHR ''%''"
  with Cons show ?thesis by (cases ys) simp_all
qed

lemma unreserved_plain: "unreserved c \<Longrightarrow> c \<noteq> CHR ''%''"
  by (auto simp: unreserved_def)

lemma percent_decode_encoded: "percent_decode (encodeURIComponent s) = s"
proof (induction s)
  case Nil
  then show ?case by (simp add: encodeURIComponent_def)
next
  case (Cons c s)
  have step: "encodeURIComponent (c # s) =
      (if unreserved c then [c]
       else [CHR ''%'', hex_digit (of_char c div 16), hex_digit (of_char c)])
      @ encodeURIComponent s"
    by (simp add: encodeURIComponent_def)
  show ?case
  proof (cases "unreserved c")
    case True
    with Cons show ?thesis
      by (simp add: step percent_decode_plain unreserved_plain)
  next
    case False
    with Cons show ?thesis
      by (simp add: step is_hex_digit hex_byte_digits)
  qed
qed

lemma encoded_chars:
  "c \<in> set (encodeURIComponent s) \<Longrightarrow> unreserved c \<or> c = CHR ''%'' \<or> is_hex c"
  by (auto simp: encodeURIComponent_def is_hex_digit split: if_splits)

lemma encoded_free:
  "CHR ''?'' \<notin> set (encodeURIComponent s)" "CHR ''&'' \<notin> set (encodeURIComponent s)"
  "CHR ''='' \<notin> set (encodeURIComponent s)" "CHR ''+'' \<notin> set (encodeURIComponent s)"
  by (auto dest!: encoded_chars simp: unreserved_def is_hex_def)

lemma split_on_absent: "c \<notin> set xs \<Longrightarrow> split_on c xs = [xs]"
  by (induction xs) auto

lemma split_on_first: "c \<notin> set a \<Longrightarrow> split_on c (a @ c # b) = a # split_on c b"
  by (induction a) auto

lemma name_decoded: "form_decode ''credential_offer'' = ''credential_offer''"
  by code_simp

lemma query_single:
  assumes "CHR ''?'' \<notin> set base" and "CHR ''?'' \<notin> set q"
  shows "(case split_on CHR ''?'' (base @ CHR ''?'' # q) of _ # q # _ \<Rightarrow> q | _ \<Rightarrow> []) = q"
  using assms by (simp add: split_on_first split_on_absent)

lemma params_single:
  assumes "name \<noteq> []" and "CHR ''?'' \<notin> set name" and "CHR ''&'' \<notin> set name"
    and "CHR ''='' \<notin> set name" and "CHR ''&'' \<notin> set v"
  shows "URLSearchParams (name @ CHR ''='' # v) = [(form_decode name, form_decode v)]"
proof -
  let ?q = "name @ CHR ''='' # v"
  have strip: "(case ?q of c # rest \<Rightarrow> if c = CHR ''?'' then rest else ?q | [] \<Rightarrow> []) = ?q"
    using assms(1,2) by (cases name) auto
  have pieces: "split_on CHR ''&'' ?q = [?q]"
    using assms(3,5) by (simp add: split_on_absent)
  have name: "takeWhile (\<lambda>c. c \<noteq> CHR ''='') ?q = name"
    using assms(4) by (auto simp: takeWhile_tail)
  have "dropWhile (\<lambda>c. c \<noteq> CHR ''='') ?q = CHR ''='' # v"
    using assms(4) by (auto simp: dropWhile_append3)
  then have rest: "drop 1 (dropWhile (\<lambda>c. c \<noteq> CHR ''='') ?q) = v"
    by simp
  show ?thesis
    using assms(1) name rest
    by (simp add: URLSearchParams_def Let_def strip pieces parse_pair_def)
qed

lemma offer_param_encoded:
  assumes "CHR ''?'' \<notin> set base" and "text \<noteq> []" and "utf8_decode text = text"
  shows "offer_param (base @ ''?credential_offer='' @ encodeURIComponent text)
           ''credential_offer'' = Some text"
proof -
  define name where "name = ''credential_offer''"
  have name: "name \<noteq> []" "CHR ''?'' \<notin> set name" "CHR ''&'' \<notin> set name"
    "CHR ''='' \<notin> set name" "form_decode name = name"
    by (simp_all add: name_def name_decoded)
  have "plus_to_space (encodeURIComponent text) = encodeURIComponent text"
    unfolding plus_to_space_def by (rule map_idI) (use encoded_free(4) in auto)
  then have decoded: "form_decode (encodeURIComponent text) = text"
    by (simp add: form_decode_def percent_decode_encoded assms(3))
  have "offer_param (base @ CHR ''?'' # name @ CHR ''='' # encodeURIComponent text) name =
      Some text"
    unfolding offer_param_def
    using assms(1,2) name
    by (simp add: query_single params_single encoded_free decoded params_get_def)
  then show ?thesis
    by (simp add: name_def)
qed

lemma decodeURIComponent_plain: "CHR ''%'' \<notin> set s \<Longrightarrow> decodeURIComponent s = Inr s"
  by (induction s) (auto simp: ebind_def)

text \<open>
  What the second decoding leaves intact: a text without a percent sign. Such an offer
  does come back from the URL it was encoded into, whatever the JSON parser of the
  platform is, as long as it reads the text back.
\<close>

lemma inline_offer_restored:
  assumes "CHR ''?'' \<notin> set base" and "text \<noteq> []" and "utf8_decode text = text"
    and "CHR ''%'' \<notin> set text" and "JSON_parse P text = Some offer"
  shows "parseCredentialOfferUrl P (JStr (base @ ''?credential_offer='' @ encodeURIComponent text))
           = Inr offer"
  unfolding parse_offer_param [OF offer_param_encoded [OF assms(1,2,3)]]
  using assms(4,5)
  by (simp add: decodeURIComponent_plain ebind_def)

section \<open>The inline offer and the second decoding\<close>

lemma percent_raw:
  "offer_param (offer_url ''openid-credential-offer://localhost/'' percent_offer)
     ''credential_offer'' = Some (json_stringify percent_offer)"
  by code_simp

lemma percent_decoded:
  "decodeURIComponent (json_stringify percent_offer) = Inr (json_stringify spaced_offer)"
  by code_simp

lemma spaced_parsed: "json_parse (json_stringify spaced_offer) = Some spaced_offer"
  by code_simp

lemma percent_parsed: "json_parse (json_stringify percent_offer) = Some percent_offer"
  by code_simp

lemma lone_percent_throws:
  "decodeURIComponent (json_stringify (JObj [(''discount'', JStr ''100%'')])) = Inl URIError"
  by code_simp

text \<open>
  C1. The claim: an offer, written as JSON, URL-encoded into the \<open>credential_offer\<close>
  parameter and read back by \<open>parseCredentialOfferUrl\<close>, comes back unchanged. The
  parser decodes the parameter twice: \<open>URLSearchParams\<close> has already decoded the value
  that \<open>decodeURIComponent\<close> is then applied to. For the offer
  \<open>{"credential_issuer": "http://h/a%20b"}\<close>, whose JSON text the JSON reader does read
  back unchanged, the parser returns the issuer \<open>http://h/a b\<close>. (An offer whose JSON
  text holds no percent sign does come back unchanged: \<open>inline_offer_restored\<close>. A
  percent sign that no two hex digits follow makes the parser throw:
  \<open>lone_percent_throws\<close>.)
\<close>

theorem percent_offer_not_restored:
  "parseCredentialOfferUrl (issuer_of demo_offer)
     (JStr (offer_url ''openid-credential-offer://localhost/'' percent_offer)) = Inr spaced_offer
   \<and> spaced_offer \<noteq> percent_offer
   \<and> json_parse (json_stringify percent_offer) = Some percent_offer"
proof -
  have "parseCredentialOfferUrl (issuer_of demo_offer)
     (JStr (offer_url ''openid-credential-offer://localhost/'' percent_offer)) = Inr spaced_offer"
    by (simp add: parse_offer_param [OF percent_raw] percent_decoded spaced_parsed ebind_def
        issuer_of_def parse_mock)
  moreover have "spaced_offer \<noteq> percent_offer"
    by (simp add: spaced_offer_def percent_offer_def)
  ultimately show ?thesis
    by (simp add: percent_parsed)
qed

section \<open>The selection of a configuration\<close>

lemma pick_first_find:
  "list_all (\<lambda>(cid, conf). \<not> nullish conf) entries \<Longrightarrow>
   pick_first entries =
     Inr (case find (\<lambda>(cid, conf). format_matches conf) entries of
            Some (cid, conf) \<Rightarrow> (Some cid, conf)
          | None \<Rightarrow> (None, JUndefined))"
  by (induction entries) (auto simp: js_get_def ebind_def format_matches_def)

lemma find_in_list: "find p xs = Some x \<Longrightarrow> x \<in> set xs"
  by (induction xs) (auto split: if_splits)

lemma pick_config_first_match:
  assumes "entries \<noteq> []"
    and "list_all (\<lambda>(cid, conf). cid \<noteq> [] \<and> \<not> nullish conf) entries"
  shows "map_option Inr (first_match_else_first entries) = Some (pick_config entries)"
proof -
  from assms(2) have "list_all (\<lambda>(cid, conf). \<not> nullish conf) entries"
    by (auto simp: list_all_iff)
  note loop = pick_first_find [OF this]
  have fallback:
    "(case entries of (cid, conf) # x \<Rightarrow> Inr (cid, conf) | [] \<Rightarrow> Inl TypeError) = Inr (hd entries)"
    "(case entries of e # x \<Rightarrow> Some e | [] \<Rightarrow> None) = Some (hd entries)"
    using assms(1) by (cases entries; auto)+
  show ?thesis
  proof (cases "find (\<lambda>(cid, conf). format_matches conf) entries")
    case None
    with assms(1) show ?thesis
      by (simp add: pick_config_def loop first_match_else_first_def ebind_def fallback)
  next
    case (Some m)
    obtain cid conf where m: "m = (cid, conf)" by (cases m)
    from find_in_list [OF Some] assms(2) m have "cid \<noteq> []"
      by (auto simp: list_all_iff)
    with Some m assms(1) show ?thesis
      by (simp add: pick_config_def loop first_match_else_first_def ebind_def fallback)
  qed
qed

text \<open>
  C5. The claim: from a map with at least one entry the selection returns the first
  entry whose format matches, and otherwise the first entry. \<open>main\<close> tests
  \<open>!pickedId\<close> to see whether the loop found an entry, so a matching entry whose
  identifier is the empty string counts as not found: for the entries
  \<open>{"ldp": {format: "ldp_vc"}, "": {format: "jwt_vc_json"}}\<close> the script picks
  \<open>ldp\<close>, and the first entry whose format matches is the second one.
  (\<open>pick_config_first_match\<close>: with identifiers that are not empty the selection is the
  one the claim states.)
\<close>

theorem empty_id_falls_back:
  "pick_config empty_id_entries = Inr (''ldp'', JObj [(''format'', JStr ''ldp_vc'')])
   \<and> first_match_else_first empty_id_entries = Some ([], JObj [(''format'', JStr ''jwt_vc_json'')])"
  by (simp add: pick_config_def empty_id_entries_def first_match_else_first_def
      format_matches_def js_get_def ebind_def)

section \<open>An offer without a code\<close>

lemma main_try_no_code:
  assumes "fst (main_offer P w) = Inr (pickedId, credentialType, holderKey, offer)"
    and "\<not> truthy (issuer_state offer)"
    and "\<not> truthy (grant_code offer CURRENT_KEY)" and "\<not> truthy (grant_code offer LEGACY_KEY)"
  shows "main_try P w =
     (Inl (Error ''Pre-authorized or authorization code not found in offer''),
      snd (main_offer P w))"
proof -
  from assms(1) have "main_offer P w =
      (Inr (pickedId, credentialType, holderKey, offer), snd (main_offer P w))"
    by (cases "main_offer P w") simp
  note offer = bnd_Inr [where m = "main_offer P" and w = w, OF this]
  have "main_try P w =
      bnd (main_credential P pickedId holderKey offer) (main_report P credentialType)
        (snd (main_offer P w))"
    by (simp add: main_try_def offer)
  then show ?thesis
    by (simp add: bnd_def main_credential_no_code [OF assms(2,3,4)])
qed

text \<open>
  C2. When the resolved offer has a code neither in
  \<open>grants.authorization_code.issuer_state\<close> nor in a pre-authorized grant under the
  current or the legacy key, \<open>main\<close> throws
  \<open>Error('Pre-authorized or authorization code not found in offer')\<close> (the
  specification's TokenExchangeError for a missing code): the run ends with exit code 1,
  after the resolution of the offer it only prints the error, and in the whole run it
  sends no POST to the token endpoint.
\<close>

theorem no_code_aborts_before_token_request:
  assumes "fst (main_offer P w) = Inr (pickedId, credentialType, holderKey, offer)"
    and "\<not> truthy (issuer_state offer)"
    and "\<not> truthy (grant_code offer CURRENT_KEY)" and "\<not> truthy (grant_code offer LEGACY_KEY)"
  shows "main P w =
     (1, (snd (main_offer P w))
           \<lparr>trace := trace (snd (main_offer P w)) @
              [ConsoleLog [JStr (newline @ ''=== ERROR ==='')],
               ConsoleErrorThrown
                 (Error ''Pre-authorized or authorization code not found in offer'')]\<rparr>)
   \<and> (\<exists>evs. trace (snd (main P w)) = trace w @ evs
          \<and> list_all (\<lambda>ev. \<not> is_token_post ev) evs)"
proof -
  have run: "main P w =
     (1, (snd (main_offer P w))
           \<lparr>trace := trace (snd (main_offer P w)) @
              [ConsoleLog [JStr (newline @ ''=== ERROR ==='')],
               ConsoleErrorThrown
                 (Error ''Pre-authorized or authorization code not found in offer'')]\<rparr>)"
    by (simp add: main_def main_try_no_code [OF assms])
  from only_main_offer [of P] obtain evs where
    "trace (snd (main_offer P w)) = trace w @ evs" "list_all (\<lambda>ev. \<not> is_token_post ev) evs"
    unfolding only_def by blast
  then have "trace (snd (main P w)) =
      trace w @ (evs @ [ConsoleLog [JStr (newline @ ''=== ERROR ==='')],
               ConsoleErrorThrown
                 (Error ''Pre-authorized or authorization code not found in offer'')])
    \<and> list_all (\<lambda>ev. \<not> is_token_post ev)
        (evs @ [ConsoleLog [JStr (newline @ ''=== ERROR ==='')],
               ConsoleErrorThrown
                 (Error ''Pre-authorized or authorization code not found in offer'')])"
    by (simp add: run)
  then have "\<exists>evs. trace (snd (main P w)) = trace w @ evs
      \<and> list_all (\<lambda>ev. \<not> is_token_post ev) evs"
    by blast
  with run show ?thesis by blast
qed

theorem no_code_aborts_witness:
  "fst (main_offer (issuer_of (offer_with [])) start) =
     Inr (''university-degree-jwt'', JStr ''VerifiableId'', (6, 7), offer_with [])
   \<and> \<not> truthy (issuer_state (offer_with []))
   \<and> \<not> truthy (grant_code (offer_with []) CURRENT_KEY)
   \<and> \<not> truthy (grant_code (offer_with []) LEGACY_KEY)
   \<and> fst (main (issuer_of (offer_with [])) start) = 1
   \<and> (\<exists>evs. trace (snd (main (issuer_of (offer_with [])) start)) = trace start @ evs
          \<and> list_all (\<lambda>ev. \<not> is_token_post ev) evs)"
proof -
  have a: "\<not> truthy (issuer_state (offer_with []))"
    by (simp add: issuer_state_def offer_with_def js_get_opt_own)
  have b: "\<not> truthy (grant_code (offer_with []) CURRENT_KEY)"
    by (simp add: grant_code_def offer_with_def js_get_opt_own js_or_def)
  have c: "\<not> truthy (grant_code (offer_with []) LEGACY_KEY)"
    by (simp add: grant_code_def offer_with_def js_get_opt_own js_or_def)
  note run = no_code_aborts_before_token_request [OF main_offer_issuer_of a b c]
  from run have "fst (main (issuer_of (offer_with [])) start) = 1"
    by simp
  with run [THEN conjunct2] main_offer_issuer_of [of "offer_with []"] a b c
  show ?thesis by blast
qed

section \<open>The proof of possession\<close>

text \<open>
  C3. The Proof Builder signs a claims set whose \<open>nonce\<close> is its argument, unchanged,
  and \<open>requestCredential\<close>, when the token response has a \<open>c_nonce\<close> that counts as
  true, calls it with that \<open>c_nonce\<close> and sends the signed JWT as \<open>proof.jwt\<close>.
  (With an empty \<open>c_nonce\<close> no proof is built: C9.)
\<close>

theorem proof_carries_c_nonce:
  assumes "js_get tokenResponse ''c_nonce'' = Inr c" and "truthy c"
    and "sign_jwt P (JObj (proof_header P (fst holderKey)))
           (JObj (proof_claims (ISSUER_BASE @ ''/'' @ STANDARD_VERSION)
              (Date_now P (calls w)) (Date_now P (Suc (calls w))) c))
           (snd holderKey) = Inr jwt"
  shows "map_of (proof_claims (ISSUER_BASE @ ''/'' @ STANDARD_VERSION)
              (Date_now P (calls w)) (Date_now P (Suc (calls w))) c) ''nonce'' = Some c
   \<and> createProofOfPossession P holderKey (ISSUER_BASE @ ''/'' @ STANDARD_VERSION) c w =
       (Inr jwt,
        w\<lparr>trace := trace w @ [ConsoleLog [JStr ''  -> Creating proof of possession JWT...'']],
           calls := Suc (Suc (calls w))\<rparr>)
   \<and> fst (requestCredential P accessToken ccid tokenResponse holderKey w) =
       http P (Suc (Suc (calls w)))
        (credential_request accessToken
           (plain_payload ccid @
            [(''proof'', JObj [(''proof_type'', JStr ''jwt''), (''jwt'', JStr jwt)])]))
   \<and> Sent (credential_request accessToken
           (plain_payload ccid @
            [(''proof'', JObj [(''proof_type'', JStr ''jwt''), (''jwt'', JStr jwt)])]))
       \<in> set (trace (snd (requestCredential P accessToken ccid tokenResponse holderKey w)))"
  using assms(3)
  by (simp add: nonce_of_claims createProofOfPossession_eq requestCredential_proof [OF assms])

theorem proof_carries_c_nonce_witness:
  "js_get demo_token ''c_nonce'' = Inr (JStr ''n1'') \<and> truthy (JStr ''n1'')
   \<and> map_of (proof_claims (ISSUER_BASE @ ''/'' @ STANDARD_VERSION)
              (Date_now (issuer_of demo_offer) (calls start))
              (Date_now (issuer_of demo_offer) (Suc (calls start))) (JStr ''n1'')) ''nonce''
       = Some (JStr ''n1'')
   \<and> fst (requestCredential (issuer_of demo_offer) (JStr ''tok1'') ''university-degree-jwt''
            demo_token (6, 7) start) = Inr demo_credential"
proof -
  have a: "js_get demo_token ''c_nonce'' = Inr (JStr ''n1'')"
    by (simp add: js_get_def demo_token_def)
  have b: "truthy (JStr ''n1'')" by simp
  from proof_carries_c_nonce [OF a b, of "issuer_of demo_offer" "(6, 7)" start _
      "JStr ''tok1''" "''university-degree-jwt''"]
  show ?thesis
    using a by (simp add: issuer_of_def sign_mock http_mock_post credential_request_def
        credential_url_def token_url_def ISSUER_BASE_def STANDARD_VERSION_def)
qed

text \<open>
  C4. When the token response has no \<open>c_nonce\<close>, \<open>requestCredential\<close> throws nothing
  of its own: it sends the payload \<open>{credential_configuration_id, format}\<close>, which has
  no \<open>proof\<close> field, and returns what the credential endpoint answers.
\<close>

theorem no_c_nonce_no_proof:
  assumes "map_of kvs ''c_nonce'' = None"
  shows "requestCredential P accessToken ccid (JObj kvs) holderKey w =
     (http P (calls w) (credential_request accessToken (plain_payload ccid)),
      w\<lparr>trace := trace w @
           [ConsoleLog [JStr ''  -> Requesting credential...''],
            ConsoleLog [JStr ''  -> Final payload:'', JObj (plain_payload ccid)],
            Sent (credential_request accessToken (plain_payload ccid))],
          calls := Suc (calls w)\<rparr>)
   \<and> map_of (plain_payload ccid) ''proof'' = None"
proof -
  from assms have "js_get (JObj kvs) ''c_nonce'' = Inr JUndefined"
    by (simp add: js_get_def)
  from requestCredential_plain [OF this] show ?thesis
    by (simp add: plain_payload_def)
qed

theorem no_c_nonce_no_proof_witness:
  "map_of [(''access_token'', JStr ''tok1'')] ''c_nonce'' = None
   \<and> fst (requestCredential (issuer_of demo_offer) (JStr ''tok1'') ''university-degree-jwt''
            (JObj [(''access_token'', JStr ''tok1'')]) (6, 7) start) = Inr demo_credential
   \<and> map_of (plain_payload ''university-degree-jwt'') ''proof'' = None"
  using no_c_nonce_no_proof [of "[(''access_token'', JStr ''tok1'')]" "issuer_of demo_offer"
      "JStr ''tok1''" "''university-degree-jwt''" "(6, 7)" start]
  by (simp add: issuer_of_def http_mock_post credential_request_def credential_url_def
      token_url_def ISSUER_BASE_def STANDARD_VERSION_def)

text \<open>
  C9. A \<open>c_nonce\<close> that is present but the empty string is treated like a missing
  one (\<open>if (tokenResponse.c_nonce)\<close> tests the value, not the key): the payload sent has
  no \<open>proof\<close> field.
\<close>

theorem empty_c_nonce_no_proof:
  assumes "map_of kvs ''c_nonce'' = Some (JStr [])"
  shows "requestCredential P accessToken ccid (JObj kvs) holderKey w =
     (http P (calls w) (credential_request accessToken (plain_payload ccid)),
      w\<lparr>trace := trace w @
           [ConsoleLog [JStr ''  -> Requesting credential...''],
            ConsoleLog [JStr ''  -> Final payload:'', JObj (plain_payload ccid)],
            Sent (credential_request accessToken (plain_payload ccid))],
          calls := Suc (calls w)\<rparr>)
   \<and> map_of (plain_payload ccid) ''proof'' = None"
proof -
  from assms have "js_get (JObj kvs) ''c_nonce'' = Inr (JStr [])"
    by (simp add: js_get_def)
  from requestCredential_plain [OF this] show ?thesis
    by (simp add: plain_payload_def)
qed

theorem empty_c_nonce_no_proof_witness:
  "map_of [(''access_token'', JStr ''tok1''), (''c_nonce'', JStr [])] ''c_nonce'' = Some (JStr [])
   \<and> fst (requestCredential (issuer_of demo_offer) (JStr ''tok1'') ''university-degree-jwt''
            (JObj [(''access_token'', JStr ''tok1''), (''c_nonce'', JStr [])]) (6, 7) start)
       = Inr demo_credential
   \<and> map_of (plain_payload ''university-degree-jwt'') ''proof'' = None"
  using empty_c_nonce_no_proof [of "[(''access_token'', JStr ''tok1''), (''c_nonce'', JStr [])]"
      "issuer_of demo_offer" "JStr ''tok1''" "''university-degree-jwt''" "(6, 7)" start]
  by (simp add: issuer_of_def http_mock_post credential_request_def credential_url_def
      token_url_def ISSUER_BASE_def STANDARD_VERSION_def)

section \<open>Resolving an offer\<close>

lemma unparsable_param:
  "offer_param ''o://h/?credential_offer=x'' ''credential_offer'' = Some ''x''"
  by code_simp

lemma unparsable: "json_parse ''x'' = None"
  by code_simp

lemma five: "[0..<5] = [0, 1, 2, 3, 4]"
  by code_simp

theorem unparsable_inline_offer:
  "offer_param ''o://h/?credential_offer=x'' ''credential_offer'' = Some ''x''
   \<and> resolveOfferIfUri (issuer_of demo_offer) (JStr ''o://h/?credential_offer=x'') start =
       (Inl SyntaxError, start)"
  by (simp add: resolve_inline [OF unparsable_param] parse_offer_param [OF unparsable_param]
      unparsable_param unparsable ebind_def issuer_of_def parse_mock)

lemma resolve_plain:
  assumes "offer_param url ''credential_offer'' = Some raw" and "CHR ''%'' \<notin> set raw"
  shows "resolveOfferIfUri P (JStr url) w = (parse_inline P raw, w)"
  by (simp add: resolve_inline [OF assms(1)] parse_offer_param [OF assms(1)]
      decodeURIComponent_plain [OF assms(2)] ebind_def parse_inline_def)

lemma retrieval_fails_iff:
  assumes "offer_param url ''credential_offer'' = None"
  shows "isl (fst (resolve_spec P url w)) =
     (case offer_param url ''credential_offer_uri'' of
        None \<Rightarrow> True
      | Some offerUri \<Rightarrow> list_all (\<lambda>k. isl (attempt P offerUri w k)) [0..<5])"
proof (cases "offer_param url ''credential_offer_uri''")
  case None
  with assms show ?thesis
    by (simp add: resolve_spec_def)
next
  case (Some offerUri)
  have "isl (attempt P offerUri w (deciding P offerUri w)) =
      list_all (\<lambda>k. isl (attempt P offerUri w k)) [0..<5]"
    using deciding_cases [of P offerUri w]
    by (auto simp: list_all_iff)
  with Some assms show ?thesis
    by (simp add: resolve_spec_def Let_def)
qed

lemma demo_raw:
  "offer_param (offer_url ''openid-credential-offer://localhost/'' demo_offer)
     ''credential_offer'' = Some (json_stringify demo_offer)"
  by code_simp

lemma demo_plain: "CHR ''%'' \<notin> set (json_stringify demo_offer)"
  by code_simp

lemma demo_parsed: "json_parse (json_stringify demo_offer) = Some demo_offer"
  by code_simp

text \<open>
  C7, as amended. For an offer URL (a string) in which no \<open>credential_offer\<close> is set,
  \<open>resolveOfferIfUri\<close> does what \<open>resolve_spec\<close> says: without a
  \<open>credential_offer_uri\<close> it throws
  \<open>Error('No credential_offer or credential_offer_uri')\<close>; otherwise it retrieves the
  URI at most five times, pausing 500 ms after each failed attempt but the last, and the
  result is the first answer, or the error of the fifth attempt. So it fails exactly
  when neither parameter is set or all five attempts fail. For an offer URL in which a
  \<open>credential_offer\<close> is set, no retrieval is attempted and nothing is printed; when
  the value of the parameter holds no percent sign, the result is again the one of
  \<open>resolve_spec\<close>, the value read as JSON, and the resolution fails exactly when the
  value is not JSON text. (Of a value with a percent sign the statement says nothing.)
\<close>

theorem offer_resolution:
  "(offer_param url ''credential_offer'' = None \<longrightarrow>
      resolveOfferIfUri P (JStr url) w = resolve_spec P url w
      \<and> isl (fst (resolveOfferIfUri P (JStr url) w)) =
          (case offer_param url ''credential_offer_uri'' of
             None \<Rightarrow> True
           | Some offerUri \<Rightarrow> list_all (\<lambda>k. isl (attempt P offerUri w k)) [0..<5]))
   \<and> (offer_param url ''credential_offer'' = Some raw \<longrightarrow>
      snd (resolveOfferIfUri P (JStr url) w) = w
      \<and> (CHR ''%'' \<notin> set raw \<longrightarrow>
           resolveOfferIfUri P (JStr url) w = resolve_spec P url w
           \<and> isl (fst (resolveOfferIfUri P (JStr url) w)) = (JSON_parse P raw = None)))"
proof (intro conjI impI)
  assume none: "offer_param url ''credential_offer'' = None"
  then show "resolveOfferIfUri P (JStr url) w = resolve_spec P url w"
    by (rule resolve_retrieved)
  from none show "isl (fst (resolveOfferIfUri P (JStr url) w)) =
          (case offer_param url ''credential_offer_uri'' of
             None \<Rightarrow> True
           | Some offerUri \<Rightarrow> list_all (\<lambda>k. isl (attempt P offerUri w k)) [0..<5])"
    by (simp add: resolve_retrieved retrieval_fails_iff)
next
  assume inline: "offer_param url ''credential_offer'' = Some raw"
  then show "snd (resolveOfferIfUri P (JStr url) w) = w"
    by (simp add: resolve_inline)
  assume plain: "CHR ''%'' \<notin> set raw"
  from inline plain show "resolveOfferIfUri P (JStr url) w = resolve_spec P url w"
    by (simp add: resolve_plain resolve_spec_def)
  from inline plain show
    "isl (fst (resolveOfferIfUri P (JStr url) w)) = (JSON_parse P raw = None)"
    by (simp add: resolve_plain parse_inline_def split: option.splits)
qed

theorem offer_resolution_witness:
  "resolveOfferIfUri (late_issuer 2 demo_offer) (JStr indirect_url) start =
     (Inr demo_offer,
      \<lparr>trace = [Sent (HttpGet ''http://h/o''), Sleep 500,
                Sent (HttpGet ''http://h/o''), Sleep 500,
                Sent (HttpGet ''http://h/o'')],
       calls = 3\<rparr>)
   \<and> resolveOfferIfUri (issuer_of demo_offer)
        (JStr (offer_url ''openid-credential-offer://localhost/'' demo_offer)) start =
       (Inr demo_offer, start)"
proof -
  have late: "attempt (late_issuer 2 demo_offer) ''http://h/o'' start k =
      (if k < 2 then Inl (AxiosError None) else Inr demo_offer)" for k
    by (simp add: attempt_def late_issuer_def start_def issuer_of_def http_mock_get
        not_discovery)
  have "deciding (late_issuer 2 demo_offer) ''http://h/o'' start = 2"
    by (simp add: deciding_def late five)
  with offer_resolution [of indirect_url "late_issuer 2 demo_offer" start "[]"]
  have "resolveOfferIfUri (late_issuer 2 demo_offer) (JStr indirect_url) start =
     (Inr demo_offer,
      start\<lparr>trace := trace start @ polling ''http://h/o'' 2, calls := calls start + 2 + 1\<rparr>)"
    by (simp add: resolve_spec_def indirect_inline indirect_uri late)
  then have retried: "resolveOfferIfUri (late_issuer 2 demo_offer) (JStr indirect_url) start =
     (Inr demo_offer,
      \<lparr>trace = [Sent (HttpGet ''http://h/o''), Sleep 500,
                Sent (HttpGet ''http://h/o''), Sleep 500,
                Sent (HttpGet ''http://h/o'')],
       calls = 3\<rparr>)"
    by (simp add: start_def polling_def eval_nat_numeral)
  from offer_resolution [of "offer_url ''openid-credential-offer://localhost/'' demo_offer"
      "issuer_of demo_offer" start "json_stringify demo_offer"]
  have "resolveOfferIfUri (issuer_of demo_offer)
        (JStr (offer_url ''openid-credential-offer://localhost/'' demo_offer)) start =
       (Inr demo_offer, start)"
    by (simp add: demo_raw demo_plain resolve_spec_def parse_inline_def issuer_of_def parse_mock
        demo_parsed)
  with retried show ?thesis
    by simp
qed

section \<open>The credential of a response\<close>



section \<open>Which code is redeemed\<close>

text \<open>
  C10. When \<open>grants.authorization_code.issuer_state\<close> counts as true it is the code,
  whatever the pre-authorized grants hold, and the first request of the exchange is the
  token request with that value as \<open>pre-authorized_code\<close>. Only when it does not count
  as true is the code the one of the pre-authorized grants.
\<close>

theorem issuer_state_preferred:
  "(truthy (issuer_state offer) \<longrightarrow>
      find_code offer = Inr (issuer_state offer)
      \<and> (\<exists>evs. trace (snd (main_credential P pickedId holderKey offer w)) =
            trace w @
              [ConsoleLog [JStr ''Got pre-authorized code''],
               ConsoleLog [JStr ''Exchanging code for access token...''],
               ConsoleLog [JStr ''  -> Exchanging pre-authorized code...''],
               Sent (token_request (issuer_state offer))] @ evs))
   \<and> (\<not> truthy (issuer_state offer) \<longrightarrow> find_code offer = Inr (pre_authorized offer))"
proof (intro conjI impI)
  assume t: "truthy (issuer_state offer)"
  then show c: "find_code offer = Inr (issuer_state offer)"
    by (simp add: find_code_eq)
  from main_credential_sends [OF c t] show
    "\<exists>evs. trace (snd (main_credential P pickedId holderKey offer w)) =
            trace w @
              [ConsoleLog [JStr ''Got pre-authorized code''],
               ConsoleLog [JStr ''Exchanging code for access token...''],
               ConsoleLog [JStr ''  -> Exchanging pre-authorized code...''],
               Sent (token_request (issuer_state offer))] @ evs" .
next
  assume "\<not> truthy (issuer_state offer)"
  then show "find_code offer = Inr (pre_authorized offer)"
    by (simp add: find_code_eq)
qed

theorem issuer_state_preferred_witness:
  "truthy (issuer_state stated_offer) \<and> find_code stated_offer = Inr (JStr ''st1'')
   \<and> truthy (pre_authorized stated_offer)
   \<and> \<not> truthy (issuer_state demo_offer) \<and> find_code demo_offer = Inr (JStr ''abc123'')"
proof -
  have a: "issuer_state stated_offer = JStr ''st1''"
    by (simp add: issuer_state_def stated_offer_def offer_with_def js_get_opt_own)
  have b: "pre_authorized stated_offer = JStr ''abc123''"
    by (simp add: pre_authorized_def stated_offer_def offer_with_def js_get_opt_own js_and_def
        js_or_def CURRENT_KEY_def LEGACY_KEY_def)
  have c: "issuer_state demo_offer = JUndefined"
    by (simp add: issuer_state_def demo_offer_def offer_with_def js_get_opt_own CURRENT_KEY_def)
  have d: "pre_authorized demo_offer = JStr ''abc123''"
    by (simp add: pre_authorized_def demo_offer_def offer_with_def js_get_opt_own js_and_def
        js_or_def CURRENT_KEY_def LEGACY_KEY_def)
  from issuer_state_preferred [of stated_offer "issuer_of demo_offer" "''university-degree-jwt''"
      "(6, 7)" start]
    issuer_state_preferred [of demo_offer "issuer_of demo_offer" "''university-degree-jwt''"
      "(6, 7)" start]
  show ?thesis
    by (simp add: a b c d)
qed

section \<open>The end of the run\<close>

lemma bnd_http:
  "bnd (http_call P req) f w =
     (case http P (calls w) req of
        Inl e \<Rightarrow> (Inl e, w\<lparr>trace := trace w @ [Sent req], calls := Suc (calls w)\<rparr>)
      | Inr x \<Rightarrow> f x (w\<lparr>trace := trace w @ [Sent req], calls := Suc (calls w)\<rparr>))"
  by (simp add: bnd_def http_call_def split: sum.splits)

lemma find_code_demo: "find_code demo_offer = Inr (JStr ''abc123'')"
  by (simp add: find_code_eq issuer_state_def pre_authorized_def demo_offer_def offer_with_def
      js_get_opt_own js_and_def js_or_def CURRENT_KEY_def LEGACY_KEY_def)

lemma main_request_demo:
  "fst (main_request (issuer_of offer) pickedId holderKey demo_token w) = Inr demo_credential"
  by (simp add: main_request_def requestCredential_def demo_token_def js_get_def issuer_of_def
      bnd_assoc bnd_say bnd_log bnd_lift_Inr bnd_ret bnd_createProofOfPossession sign_mock
      axios_post_eq http_mock_post credential_url_def token_url_def ISSUER_BASE_def
      STANDARD_VERSION_def)

lemma main_credential_demo:
  "fst (main_credential (issuer_of offer) pickedId holderKey demo_offer w) = Inr demo_credential"
proof -
  have "http (issuer_of offer) n (token_request (JStr ''abc123'')) = Inr demo_token" for n
    by (simp add: token_request_def issuer_of_def http_mock_post token_url_def ISSUER_BASE_def
        STANDARD_VERSION_def)
  then show ?thesis
    by (simp add: main_credential_code [OF find_code_demo] bnd_http main_request_demo)
qed

lemma main_report_demo:
  "fst (main_report (issuer_of offer) credentialType demo_credential w) = Inr ()"
  by (simp add: main_report_def main_verify_def main_success_def startVerification_def
      js_keys_def find_credential_def js_get_def ebind_def js_substring0_def demo_credential_def
      issuer_of_def bnd_assoc bnd_say bnd_log bnd_lift_Inr bnd_post http_mock_post say_eq
      VERIFIER_BASE_def ISSUER_BASE_def STANDARD_VERSION_def token_url_def credential_url_def)

lemma main_try_demo: "fst (main_try (issuer_of demo_offer) start) = Inr ()"
proof -
  let ?P = "issuer_of demo_offer"
  have "main_offer ?P start =
      (Inr (''university-degree-jwt'', JStr ''VerifiableId'', (6, 7), demo_offer),
       snd (main_offer ?P start))"
    using main_offer_issuer_of [of demo_offer] by (cases "main_offer ?P start") simp
  note offer = bnd_Inr [where m = "main_offer ?P" and w = start, OF this]
  obtain w' where "main_credential ?P ''university-degree-jwt'' (6, 7) demo_offer
      (snd (main_offer ?P start)) = (Inr demo_credential, w')"
    using main_credential_demo [of demo_offer "''university-degree-jwt''" "(6, 7)"
        "snd (main_offer ?P start)"]
    by (cases "main_credential ?P ''university-degree-jwt'' (6, 7) demo_offer
      (snd (main_offer ?P start))") simp
  note credential = bnd_Inr [where m = "main_credential ?P ''university-degree-jwt'' (6, 7)
      demo_offer" and w = "snd (main_offer ?P start)", OF this]
  show ?thesis
    by (simp add: main_try_def offer credential main_report_demo)
qed

lemma bnd_unit: "bnd m (\<lambda>u. ret ()) = m"
  by (auto simp: bnd_def ret_def fun_eq_iff split: prod.splits sum.splits)

lemma bnd_ret_right: "bnd m ret = m"
  by (auto simp: bnd_def ret_def fun_eq_iff split: prod.splits sum.splits)

lemma bnd_if: "bnd (if c then a else b) f = (if c then bnd a f else bnd b f)"
  by simp

text \<open>The statements of \<open>flow\<close>, one after the other, are the body of the \<open>try\<close>,
  whatever the variables hold at the start.\<close>

lemma main_try_flow: "main_try P = bnd (run (flow P) v) (\<lambda>_. ret ())"
  by (simp add: main_try_def main_offer_def main_credential_def main_request_def
      main_report_def main_verify_def main_success_def flow_def effect_def
      bnd_assoc bnd_ret bnd_throw bnd_unit bnd_ret_right bnd_if case_prod_beta cong: if_cong)

lemma run_append: "run (xs @ ys) = (\<lambda>v. bnd (run xs v) (run ys))"
proof (induction xs)
  case Nil
  show ?case by (rule ext) (simp add: bnd_ret)
next
  case (Cons s xs)
  show ?case by (rule ext) (simp add: Cons.IH bnd_assoc)
qed

lemma run_throws:
  assumes "k < length ss" and "run (take k ss) v w = (Inr v', w1)"
    and "(ss ! k) v' w1 = (Inl e, w2)"
  shows "run ss v w = (Inl e, w2)"
proof -
  from assms(1) have "ss = take k ss @ ss ! k # drop (Suc k) ss"
    by (rule id_take_nth_drop)
  then have "run ss v w = bnd (run (take k ss) v) (run (ss ! k # drop (Suc k) ss)) w"
    by (metis run_append)
  with assms(2,3) show ?thesis
    by (simp add: bnd_def)
qed

lemma fst_ret: "fst (ret x w) = Inr x"
  by (simp add: ret_def)

lemma flow_length: "length (flow P) = 37"
  by (simp add: flow_def)

lemma flow_to_code:
  "\<exists>v' w1. run (take 18 (flow (mock (Inr demo_meta) (Inr (JStr indirect_url)) (Inr resolved)
                tokenResp credentialResp))) unset start = (Inr v', w1)
     \<and> v_code v' = c" if "find_code resolved = Inr c"
proof -
  let ?P = "mock (Inr demo_meta) (Inr (JStr indirect_url)) (Inr resolved) tokenResp credentialResp"
  have "\<exists>v'. fst (run (take 18 (flow ?P)) unset start) = Inr v' \<and> v_code v' = c"
    using that
    by (simp add: flow_def effect_def discoverIssuerConfigs_def generateEd25519Jwk_def
      startIssuance_def start_def bnd_assoc bnd_say bnd_log bnd_get bnd_post
      bnd_keygen bnd_uuid bnd_now bnd_ret bnd_lift_Inr http_mock_get http_mock_post keys_mock
      select_demo type_demo bnd_resolve_indirect not_discovery fst_ret discovery_url_def)
  then show ?thesis
    by (metis prod.collapse)
qed

lemma flow_to_exchange:
  "\<exists>v' w1. run (take 21 (flow (mock (Inr demo_meta) (Inr (JStr indirect_url)) (Inr resolved)
                tokenResp credentialResp))) unset start = (Inr v', w1)
     \<and> v_code v' = c" if "find_code resolved = Inr c" and "truthy c"
proof -
  let ?P = "mock (Inr demo_meta) (Inr (JStr indirect_url)) (Inr resolved) tokenResp credentialResp"
  have "\<exists>v'. fst (run (take 21 (flow ?P)) unset start) = Inr v' \<and> v_code v' = c"
    using that
    by (simp add: flow_def effect_def discoverIssuerConfigs_def generateEd25519Jwk_def
      startIssuance_def start_def bnd_assoc bnd_say bnd_log bnd_get bnd_post
      bnd_keygen bnd_uuid bnd_now bnd_ret bnd_lift_Inr http_mock_get http_mock_post keys_mock
      select_demo type_demo bnd_resolve_indirect not_discovery fst_ret discovery_url_def)
  then show ?thesis
    by (metis prod.collapse)
qed

lemma flow_to_discovery: "\<exists>w1. run (take 2 (flow P)) unset start = (Inr unset, w1)"
proof -
  have "fst (run (take 2 (flow P)) unset start) = Inr unset"
    by (simp add: flow_def effect_def bnd_assoc bnd_say bnd_ret fst_ret)
  then show ?thesis
    by (metis prod.collapse)
qed

lemma discovery_throws:
  "\<exists>w2. (flow down_issuer ! 2) v w = (Inl (AxiosError (Some (503, JStr ''down''))), w2)"
  by (simp add: flow_def discoverIssuerConfigs_def down_issuer_def bnd_assoc bnd_say bnd_get
      http_mock_get discovery_url_def)

lemma missing_code_throws:
  "\<not> truthy (v_code v) \<Longrightarrow>
   (flow P ! 18) v w =
     (Inl (Error ''Pre-authorized or authorization code not found in offer''), w)"
  by (simp add: flow_def throw_def)

lemma exchange_throws:
  "\<exists>w2. (flow rejecting_issuer ! 21) v w =
     (Inl (AxiosError (Some (400, JObj [(''error'', JStr ''invalid_grant'')]))), w2)"
  by (simp add: flow_def exchangePreAuthorizedCode_def rejecting_issuer_def bnd_assoc bnd_say
      bnd_post http_mock_post token_url_def ISSUER_BASE_def STANDARD_VERSION_def)

lemma find_code_none: "find_code (offer_with []) = Inr JUndefined"
  by (simp add: find_code_eq issuer_state_def pre_authorized_def offer_with_def js_get_opt_own
      js_and_def js_or_def CURRENT_KEY_def LEGACY_KEY_def)

lemma flow_demo: "\<exists>v' w1. run (flow (issuer_of demo_offer)) unset start = (Inr v', w1)"
proof -
  obtain r w1 where r: "run (flow (issuer_of demo_offer)) unset start = (r, w1)"
    by (cases "run (flow (issuer_of demo_offer)) unset start")
  with main_try_demo show ?thesis
    by (cases r) (simp_all add: main_try_flow [of "issuer_of demo_offer" unset] bnd_def)
qed

text \<open>
  C8. \<open>flow\<close> is the list of the statements of \<open>main\<close>'s \<open>try\<close>, and running
  them in order is the body of the \<open>try\<close> (\<open>main_try_flow\<close>). Whichever statement
  \<open>k\<close> throws, after the statements before it have run: the run ends there with exit
  code 1, and what \<open>main\<close> prints after the effects of that statement is the line
  \<open>=== ERROR ===\<close> and then \<open>HTTP Error:\<close> with the status and the body when the
  error carries a response, and the error itself otherwise. (A request that the server
  rejects throws the error of the HTTP client, which carries the response: \<open>bnd_http\<close>.)
  When the last statement has run the exit code is 0 and nothing more is printed.
\<close>

theorem throwing_statement_exits_1:
  "(k < length (flow P) \<and> run (take k (flow P)) v w = (Inr v', w1)
      \<and> (flow P ! k) v' w1 = (Inl e, w2) \<longrightarrow>
      main P w =
        (1, w2\<lparr>trace := trace w2 @
               [ConsoleLog [JStr (newline @ ''=== ERROR ==='')],
                (case response e of
                   Some (status, body) \<Rightarrow> ConsoleError [JStr ''HTTP Error:'', JNum status, body]
                 | None \<Rightarrow> ConsoleErrorThrown e)]\<rparr>))
   \<and> (run (flow P) v w = (Inr v', w1) \<longrightarrow> main P w = (0, w1))"
proof (intro conjI impI)
  assume "k < length (flow P) \<and> run (take k (flow P)) v w = (Inr v', w1)
      \<and> (flow P ! k) v' w1 = (Inl e, w2)"
  then have "run (flow P) v w = (Inl e, w2)"
    by (blast intro: run_throws)
  then have "main_try P w = (Inl e, w2)"
    by (simp add: main_try_flow [of P v] bnd_def)
  then show "main P w =
        (1, w2\<lparr>trace := trace w2 @
               [ConsoleLog [JStr (newline @ ''=== ERROR ==='')],
                (case response e of
                   Some (status, body) \<Rightarrow> ConsoleError [JStr ''HTTP Error:'', JNum status, body]
                 | None \<Rightarrow> ConsoleErrorThrown e)]\<rparr>)"
    by (simp add: main_def)
next
  assume "run (flow P) v w = (Inr v', w1)"
  then have "main_try P w = (Inr (), w1)"
    by (simp add: main_try_flow [of P v] bnd_def ret_def)
  then show "main P w = (0, w1)"
    by (simp add: main_def)
qed

theorem throwing_statement_exits_1_witness:
  "(\<exists>w1 w2. run (take 2 (flow down_issuer)) unset start = (Inr unset, w1)
       \<and> (flow down_issuer ! 2) unset w1 =
           (Inl (AxiosError (Some (503, JStr ''down''))), w2))
   \<and> fst (main down_issuer start) = 1
   \<and> last (trace (snd (main down_issuer start))) =
       ConsoleError [JStr ''HTTP Error:'', JNum 503, JStr ''down'']
   \<and> (\<exists>v' w1. run (take 18 (flow (issuer_of (offer_with [])))) unset start = (Inr v', w1)
       \<and> (flow (issuer_of (offer_with [])) ! 18) v' w1 =
           (Inl (Error ''Pre-authorized or authorization code not found in offer''), w1))
   \<and> fst (main (issuer_of (offer_with [])) start) = 1
   \<and> last (trace (snd (main (issuer_of (offer_with [])) start))) =
       ConsoleErrorThrown (Error ''Pre-authorized or authorization code not found in offer'')
   \<and> (\<exists>v' w1 w2. run (take 21 (flow rejecting_issuer)) unset start = (Inr v', w1)
       \<and> (flow rejecting_issuer ! 21) v' w1 =
           (Inl (AxiosError (Some (400, JObj [(''error'', JStr ''invalid_grant'')]))), w2))
   \<and> fst (main rejecting_issuer start) = 1
   \<and> last (trace (snd (main rejecting_issuer start))) =
       ConsoleError [JStr ''HTTP Error:'', JNum 400, JObj [(''error'', JStr ''invalid_grant'')]]
   \<and> (\<exists>v' w1. run (flow (issuer_of demo_offer)) unset start = (Inr v', w1))
   \<and> fst (main (issuer_of demo_offer) start) = 0"
proof -
  obtain a1 where a1: "run (take 2 (flow down_issuer)) unset start = (Inr unset, a1)"
    using flow_to_discovery by blast
  obtain a2 where a2: "(flow down_issuer ! 2) unset a1 =
      (Inl (AxiosError (Some (503, JStr ''down''))), a2)"
    using discovery_throws by blast
  from throwing_statement_exits_1 [of 2 down_issuer unset start unset a1
      "AxiosError (Some (503, JStr ''down''))" a2] a1 a2
  have "main down_issuer start =
      (1, a2\<lparr>trace := trace a2 @
             [ConsoleLog [JStr (newline @ ''=== ERROR ==='')],
              ConsoleError [JStr ''HTTP Error:'', JNum 503, JStr ''down'']]\<rparr>)"
    by (simp add: flow_length)
  then have down: "fst (main down_issuer start) = 1"
    "last (trace (snd (main down_issuer start))) =
       ConsoleError [JStr ''HTTP Error:'', JNum 503, JStr ''down'']"
    by simp_all
  obtain b b1 where b1: "run (take 18 (flow (issuer_of (offer_with [])))) unset start = (Inr b, b1)"
    and b: "v_code b = JUndefined"
    using flow_to_code [OF find_code_none] unfolding issuer_of_def by blast
  from b have b2: "(flow (issuer_of (offer_with [])) ! 18) b b1 =
      (Inl (Error ''Pre-authorized or authorization code not found in offer''), b1)"
    by (simp add: missing_code_throws)
  from throwing_statement_exits_1 [of 18 "issuer_of (offer_with [])" unset start b b1
      "Error ''Pre-authorized or authorization code not found in offer''" b1] b1 b2
  have "main (issuer_of (offer_with [])) start =
      (1, b1\<lparr>trace := trace b1 @
             [ConsoleLog [JStr (newline @ ''=== ERROR ==='')],
              ConsoleErrorThrown
                (Error ''Pre-authorized or authorization code not found in offer'')]\<rparr>)"
    by (simp add: flow_length)
  then have missing: "fst (main (issuer_of (offer_with [])) start) = 1"
    "last (trace (snd (main (issuer_of (offer_with [])) start))) =
       ConsoleErrorThrown (Error ''Pre-authorized or authorization code not found in offer'')"
    by simp_all
  obtain c c1 where c1: "run (take 21 (flow rejecting_issuer)) unset start = (Inr c, c1)"
    using flow_to_exchange [OF find_code_demo] unfolding rejecting_issuer_def by fastforce
  obtain c2 where c2: "(flow rejecting_issuer ! 21) c c1 =
      (Inl (AxiosError (Some (400, JObj [(''error'', JStr ''invalid_grant'')]))), c2)"
    using exchange_throws by blast
  from throwing_statement_exits_1 [of 21 rejecting_issuer unset start c c1
      "AxiosError (Some (400, JObj [(''error'', JStr ''invalid_grant'')]))" c2] c1 c2
  have "main rejecting_issuer start =
      (1, c2\<lparr>trace := trace c2 @
             [ConsoleLog [JStr (newline @ ''=== ERROR ==='')],
              ConsoleError [JStr ''HTTP Error:'', JNum 400,
                JObj [(''error'', JStr ''invalid_grant'')]]]\<rparr>)"
    by (simp add: flow_length)
  then have rejected: "fst (main rejecting_issuer start) = 1"
    "last (trace (snd (main rejecting_issuer start))) =
       ConsoleError [JStr ''HTTP Error:'', JNum 400, JObj [(''error'', JStr ''invalid_grant'')]]"
    by simp_all
  obtain d d1 where d1: "run (flow (issuer_of demo_offer)) unset start = (Inr d, d1)"
    using flow_demo by blast
  from throwing_statement_exits_1 [of 0 "issuer_of demo_offer" unset start d d1
      "Error []" start] d1
  have ended: "fst (main (issuer_of demo_offer) start) = 0"
    by simp
  from a1 a2 down b1 b2 missing c1 c2 rejected d1 ended show ?thesis
    by blast
qed

end
